theory Spec2Isabelle
  imports Complex_Main
begin

section \<open>Scene upload and release of the CUDA path tracer\<close>

text \<open>
  The repository holds two generations of the scene facade:
  \<^item> \<^verbatim>\<open>src/cuda_opengl/src/scene.cpp\<close> (glm vectors, textures, a cubemap uploader,
    \<^verbatim>\<open>upload(bool)\<close>); its functions carry the suffix \<open>_top\<close> here when the other file
    has a function of the same name;
  \<^item> \<^verbatim>\<open>src/cuda_opengl/src/scene/scene.cpp\<close> (float3 vectors, \<^verbatim>\<open>upload(Camera*)\<close>);
    its functions carry the suffix \<open>_dir\<close>.
  Functions that are textually the same in both files (\<^verbatim>\<open>parse_double3\<close>,
  \<^verbatim>\<open>upload_meshes\<close>, \<^verbatim>\<open>Scene::release\<close>) are modelled once.

  Conventions of the embedding:
  \<^item> \<^verbatim>\<open>float\<close> and \<^verbatim>\<open>real_t\<close> values are idealised as \<open>real\<close>; rounding is not modelled.
  \<^item> Undefined behaviour of the C++ (indexing a \<^verbatim>\<open>std::vector\<close> outside its size) and a
    thrown \<^verbatim>\<open>std::runtime_error\<close> are values of type \<open>error\<close>, returned as \<open>Inl\<close>.
  \<^item> The device primitives are modelled in their succeeding form (device memory is not
    bounded, so \<^verbatim>\<open>cudaThrowError()\<close> after an allocation or a copy to a live allocation does
    not throw); every call is appended to a trace.
  \<^item> What the program reads from outside (the scene file, tinyobj's \<^verbatim>\<open>LoadObj\<close>, the material
    loader, \<^verbatim>\<open>stbi_loadf\<close>, the number conversion of \<^verbatim>\<open>operator>>\<close>, the indeterminate
    contents of freshly \<^verbatim>\<open>new\<close>-ed objects) is a field of the record \<open>env\<close>.
\<close>

subsection \<open>Errors\<close>

datatype error =
  OutOfRange           \<comment> \<open>undefined behaviour: a vector or array is indexed outside its size\<close>
| BadPointer           \<comment> \<open>undefined behaviour: a null, dangling or indeterminate host pointer is
                           dereferenced\<close>
| RuntimeError string  \<comment> \<open>\<^verbatim>\<open>throw std::runtime_error(msg)\<close>\<close>

definition bindE :: "error + 'a \<Rightarrow> ('a \<Rightarrow> error + 'b) \<Rightarrow> error + 'b" where
  "bindE m f = (case m of Inl e \<Rightarrow> Inl e | Inr x \<Rightarrow> f x)"

subsection \<open>Data model (scene\_data.h and the fields the two scene.cpp files use)\<close>

text \<open>A device pointer: the null pointer or the address of a device allocation. An
  indeterminate pointer (a field of a \<^verbatim>\<open>new SceneData\<close> never written) is whatever value of
  this type the environment supplies.\<close>

datatype ptr = Null | Dev nat

text \<open>\<^verbatim>\<open>Buffer<T>\<close>: the fields \<^verbatim>\<open>size\<close> and \<^verbatim>\<open>data\<close>.\<close>

record 'a Buffer =
  buf_size :: nat
  buf_data :: ptr

type_synonym vec3 = "real \<times> real \<times> real"
type_synonym vec2 = "real \<times> real"

text \<open>A texture descriptor on the device side: \<^verbatim>\<open>w\<close>, \<^verbatim>\<open>h\<close>, \<^verbatim>\<open>nb_chan\<close> and the device
  pointer \<^verbatim>\<open>data\<close>.\<close>

record Texture =
  tex_w :: int
  tex_h :: int
  tex_nb_chan :: int
  tex_data :: ptr

record Material =
  diffuse_spec_map :: int
  normal_map :: int

record LightProp =
  color :: vec3
  vec :: vec3
  emission :: real
  radius :: real

text \<open>\<^verbatim>\<open>Face\<close> is declared in a header that is not among the sources; its fields are the
  ones \<^verbatim>\<open>upload_meshes\<close> writes. The tangent is \<open>None\<close> where the source divides by a zero
  determinant (a non-finite float).\<close>

record Face =
  vertices :: "vec3 list"
  normals :: "vec3 list"
  texcoords :: "vec2 list"
  tangent :: "vec3 option"
  material_id :: int

text \<open>\<^verbatim>\<open>Mesh\<close> as both scene.cpp files use it: one buffer of faces.\<close>

record Mesh =
  faces :: "Face Buffer"

record Camera =
  res :: "int \<times> int"
  position :: vec3
  dir :: vec3
  cam_u :: vec3
  cam_v :: vec3
  fov_x :: real
  focus_dist :: real
  aperture :: real
  speed :: real

text \<open>The cubemap of \<^verbatim>\<open>SceneData\<close> (scene.cpp): the device cube array and its channel
  descriptor (bits per channel x, y, z, w; the kind is always float).\<close>

record SceneData =
  meshes :: "Mesh Buffer"
  materials :: "Material Buffer"
  lights :: "LightProp Buffer"
  textures :: "Texture Buffer"
  cubemap :: ptr
  cubemap_desc :: "nat \<times> nat \<times> nat \<times> nat"

subsection \<open>tinyobj types\<close>

record index_t =
  vertex_index :: int
  normal_index :: int
  texcoord_index :: int

record mesh_t =
  indices :: "index_t list"
  material_ids :: "int list"

record shape_t =
  name :: string
  mesh :: mesh_t

record attrib_t =
  attrib_vertices :: "real list"
  attrib_normals :: "real list"
  attrib_texcoords :: "real list"

text \<open>\<^verbatim>\<open>tinyobj::material_t\<close> is only handed to the material loader.\<close>

type_synonym material_t = string

subsection \<open>Device memory\<close>

text \<open>What a device allocation holds after a host-to-device copy.\<close>

datatype blob =
  Uninit
| Lights "LightProp list"
| Pixels "real list"
| Textures "Texture list"
| Materials "Material list"
| Faces "Face list"
| Meshes "Mesh list"
| Scene SceneData
| Cube nat "real list"

datatype event =
  Cerr string                 \<comment> \<open>a line written to \<^verbatim>\<open>std::cerr\<close>\<close>
| CameraOut                   \<comment> \<open>\<^verbatim>\<open>*camera = _init_camera\<close>\<close>
| LoadObj string string       \<comment> \<open>\<^verbatim>\<open>tinyobj::LoadObj\<close> on (obj path, mtl dir)\<close>
| CudaMalloc nat ptr          \<comment> \<open>element count requested, pointer returned\<close>
| CudaMemcpyH2D ptr blob
| CudaMemcpyD2H ptr nat
| CudaFree ptr
| CudaMalloc3DArray nat ptr   \<comment> \<open>face size, array returned\<close>
| CudaMemcpy3D ptr nat
| StbiLoadf string

text \<open>The device: the next fresh address, the live allocations with their contents in
  allocation order, and the trace of calls.\<close>

record device =
  next_addr :: nat
  allocs :: "(nat \<times> blob) list"
  trace :: "event list"

definition emit :: "event \<Rightarrow> device \<Rightarrow> device" where
  "emit e d = d\<lparr>trace := trace d @ [e]\<rparr>"

definition is_live :: "device \<Rightarrow> ptr \<Rightarrow> bool" where
  "is_live d p = (case p of Null \<Rightarrow> False | Dev a \<Rightarrow> a \<in> fst ` set (allocs d))"

text \<open>\<^verbatim>\<open>cudaMalloc(&p, n * sizeof(T))\<close>, by element count \<open>n\<close> (every \<^verbatim>\<open>sizeof\<close> is
  positive): a request of zero bytes returns the null pointer and allocates nothing.\<close>

definition cudaMalloc :: "nat \<Rightarrow> device \<Rightarrow> ptr \<times> device" where
  "cudaMalloc n d =
     (if n = 0 then (Null, emit (CudaMalloc 0 Null) d)
      else (Dev (next_addr d),
            emit (CudaMalloc n (Dev (next_addr d)))
              (d\<lparr>next_addr := Suc (next_addr d),
                 allocs := allocs d @ [(next_addr d, Uninit)]\<rparr>)))"

text \<open>\<^verbatim>\<open>cudaMemcpy(dst, src, n, cudaMemcpyHostToDevice)\<close>: the contents of a live
  allocation are replaced; a copy to any other pointer changes nothing.\<close>

definition cudaMemcpyH2D :: "ptr \<Rightarrow> blob \<Rightarrow> device \<Rightarrow> device" where
  "cudaMemcpyH2D p b d =
     emit (CudaMemcpyH2D p b)
       (case p of
          Null \<Rightarrow> d
        | Dev a \<Rightarrow> d\<lparr>allocs := map (\<lambda>(k, c). if k = a then (k, b) else (k, c)) (allocs d)\<rparr>)"

definition peek_dev :: "device \<Rightarrow> ptr \<Rightarrow> blob option" where
  "peek_dev d p = (case p of Null \<Rightarrow> None | Dev a \<Rightarrow> map_of (allocs d) a)"

text \<open>\<^verbatim>\<open>cudaFree(p)\<close>: the null pointer is accepted and frees nothing; a pointer that is
  not a live allocation is an error the callers never look at.\<close>

definition cudaFree :: "ptr \<Rightarrow> device \<Rightarrow> device" where
  "cudaFree p d =
     emit (CudaFree p)
       (case p of
          Null \<Rightarrow> d
        | Dev a \<Rightarrow> d\<lparr>allocs := filter (\<lambda>(k, c). k \<noteq> a) (allocs d)\<rparr>)"

subsection \<open>upload\_meshes (the same text in both files)\<close>

text \<open>\<^verbatim>\<open>attrib.vertices[3 * k]\<close>, \<^verbatim>\<open>[3 * k + 1]\<close>, \<^verbatim>\<open>[3 * k + 2]\<close> for an \<^verbatim>\<open>int\<close> index \<open>k\<close>:
  outside the pool (tinyobj gives -1 for an absent index) the read is undefined.\<close>

definition fetch3 :: "real list \<Rightarrow> int \<Rightarrow> error + vec3" where
  "fetch3 pool k =
     (if 0 \<le> k \<and> 3 * k + 2 < 2 ^ 31 \<and> nat (3 * k) + 2 < length pool
      then Inr (pool ! nat (3 * k), pool ! (nat (3 * k) + 1), pool ! (nat (3 * k) + 2))
      else Inl OutOfRange)"

definition fetch2 :: "real list \<Rightarrow> int \<Rightarrow> error + vec2" where
  "fetch2 pool k =
     (if 0 \<le> k \<and> 2 * k + 1 < 2 ^ 31 \<and> nat (2 * k) + 1 < length pool
      then Inr (pool ! nat (2 * k), pool ! (nat (2 * k) + 1))
      else Inl OutOfRange)"

definition sub3 :: "vec3 \<Rightarrow> vec3 \<Rightarrow> vec3" where
  "sub3 a b = (case a of (ax, ay, az) \<Rightarrow> case b of (bx, by, bz) \<Rightarrow> (ax - bx, ay - by, az - bz))"

definition sub2 :: "vec2 \<Rightarrow> vec2 \<Rightarrow> vec2" where
  "sub2 a b = (case a of (ax, ay) \<Rightarrow> case b of (bx, by) \<Rightarrow> (ax - bx, ay - by))"

text \<open>One pass of the loop over \<open>v\<close>: \<^verbatim>\<open>mesh.indices[i + v]\<close> and the three pool reads.\<close>

definition read_corner :: "attrib_t \<Rightarrow> mesh_t \<Rightarrow> nat \<Rightarrow> error + (vec3 \<times> vec3 \<times> vec2)" where
  "read_corner a m j =
     (if j < length (indices m)
      then (let idx = indices m ! j in
            bindE (fetch3 (attrib_vertices a) (vertex_index idx)) (\<lambda>p.
            bindE (fetch3 (attrib_normals a) (normal_index idx)) (\<lambda>n.
            bindE (fetch2 (attrib_texcoords a) (texcoord_index idx)) (\<lambda>t.
            Inr (p, n, t)))))
      else Inl OutOfRange)"

text \<open>The tangent of a face from its two edges and the two UV deltas.\<close>

definition face_tangent :: "vec3 \<Rightarrow> vec3 \<Rightarrow> vec3 \<Rightarrow> vec2 \<Rightarrow> vec2 \<Rightarrow> vec2 \<Rightarrow> vec3 option" where
  "face_tangent p0 p1 p2 t0 t1 t2 =
     (case sub3 p1 p0 of (e1x, e1y, e1z) \<Rightarrow>
      case sub3 p2 p0 of (e2x, e2y, e2z) \<Rightarrow>
      case sub2 t1 t0 of (d1x, d1y) \<Rightarrow>
      case sub2 t2 t0 of (d2x, d2y) \<Rightarrow>
        (if d1x * d2y - d2x * d1y = 0 then None
         else (let f = 1 / (d1x * d2y - d2x * d1y) in
               Some (f * (d2y * e1x - d1y * e2x),
                     f * (d2y * e1y - d1y * e2y),
                     f * (d2y * e1z - d1y * e2z)))))"

text \<open>The body of the loop over \<open>i\<close>, after \<^verbatim>\<open>auto& face = faces[i / 3]\<close>: every field of
  the face is overwritten.\<close>

definition build_face :: "attrib_t \<Rightarrow> mesh_t \<Rightarrow> nat \<Rightarrow> error + Face" where
  "build_face a m i =
     bindE (read_corner a m i) (\<lambda>(p0, n0, t0).
     bindE (read_corner a m (i + 1)) (\<lambda>(p1, n1, t1).
     bindE (read_corner a m (i + 2)) (\<lambda>(p2, n2, t2).
       if i div 3 < length (material_ids m)
       then Inr \<lparr>vertices = [p0, p1, p2], normals = [n0, n1, n2], texcoords = [t0, t1, t2],
                 tangent = face_tangent p0 p1 p2 t0 t1 t2,
                 material_id = material_ids m ! (i div 3)\<rparr>
       else Inl OutOfRange)))"

text \<open>\<^verbatim>\<open>for (size_t i = 0; i < nb_indices; i += 3)\<close> over the vector \<^verbatim>\<open>faces\<close>.\<close>

function face_loop :: "attrib_t \<Rightarrow> mesh_t \<Rightarrow> nat \<Rightarrow> Face list \<Rightarrow> error + Face list" where
  "face_loop a m i fs =
     (if i < length (indices m)
      then (if i div 3 < length fs
            then (case build_face a m i of
                    Inl e \<Rightarrow> Inl e
                  | Inr f \<Rightarrow> face_loop a m (i + 3) (fs[i div 3 := f]))
            else Inl OutOfRange)
      else Inr fs)"
  by pat_completeness auto
termination
  by (relation "measure (\<lambda>(a, m, i, fs). length (indices m) - i)") auto

declare face_loop.simps [simp del]

text \<open>A value-initialised \<^verbatim>\<open>Face\<close> (\<^verbatim>\<open>std::vector<Face> faces(nb_faces)\<close>).\<close>

definition Face0 :: Face where
  "Face0 = \<lparr>vertices = replicate 3 (0, 0, 0), normals = replicate 3 (0, 0, 0),
            texcoords = replicate 3 (0, 0), tangent = Some (0, 0, 0), material_id = 0\<rparr>"

text \<open>The body of the loop over the shapes; \<^verbatim>\<open>gpu_meshes[i]\<close> starts value-initialised
  (size 0, null pointer).\<close>

definition upload_shape :: "attrib_t \<Rightarrow> shape_t \<Rightarrow> device \<Rightarrow> error + (Mesh \<times> device)" where
  "upload_shape a s d =
     (let nb_indices = length (indices (mesh s));
          nb_faces = nb_indices div 3;
          gpu_mesh = \<lparr>faces = \<lparr>buf_size = nb_faces, buf_data = Null\<rparr>\<rparr>
      in case face_loop a (mesh s) 0 (replicate nb_faces Face0) of
           Inl e \<Rightarrow> Inl e
         | Inr fs \<Rightarrow>
             if length fs = 0 then Inr (gpu_mesh, d)
             else (case cudaMalloc (buf_size (faces gpu_mesh)) d of (p, d1) \<Rightarrow>
                   Inr (\<lparr>faces = \<lparr>buf_size = nb_faces, buf_data = p\<rparr>\<rparr>,
                        cudaMemcpyH2D p (Faces fs) d1)))"

fun upload_shapes :: "attrib_t \<Rightarrow> shape_t list \<Rightarrow> device \<Rightarrow> error + (Mesh list \<times> device)" where
  "upload_shapes a [] d = Inr ([], d)"
| "upload_shapes a (s # ss) d =
     (case upload_shape a s d of
        Inl e \<Rightarrow> Inl e
      | Inr (gm, d1) \<Rightarrow>
          (case upload_shapes a ss d1 of
             Inl e \<Rightarrow> Inl e
           | Inr (gms, d2) \<Rightarrow> Inr (gm # gms, d2)))"

definition upload_meshes :: "shape_t list \<Rightarrow> attrib_t \<Rightarrow> device \<Rightarrow> error + (Mesh Buffer \<times> device)" where
  "upload_meshes shapes a d =
     (case upload_shapes a shapes d of
        Inl e \<Rightarrow> Inl e
      | Inr (gpu_meshes, d1) \<Rightarrow>
          (case cudaMalloc (length shapes) d1 of (p, d2) \<Rightarrow>
           Inr (\<lparr>buf_size = length shapes, buf_data = p\<rparr>,
                cudaMemcpyH2D p (Meshes gpu_meshes) d2)))"

subsection \<open>The environment\<close>

text \<open>What \<^verbatim>\<open>tinyobj::LoadObj\<close> returns: the success flag, the error string, and the
  attribute pools, shapes and materials it filled.\<close>

record obj_result =
  obj_ok :: bool
  obj_err :: string
  obj_attrib :: attrib_t
  obj_shapes :: "shape_t list"
  obj_materials :: "material_t list"

text \<open>A decoded texture on the host side (\<^verbatim>\<open>scene::Texture\<close> with a host pointer): the
  dimensions and the floats \<^verbatim>\<open>data\<close> points to.\<close>

record HostTexture =
  host_w :: int
  host_h :: int
  host_nb_chan :: int
  host_pixels :: "real list"

text \<open>What \<^verbatim>\<open>stbi_loadf\<close> leaves behind: the decoded floats (\<open>None\<close> for a null return)
  and the values of \<^verbatim>\<open>w\<close>, \<^verbatim>\<open>h\<close>, \<^verbatim>\<open>nb_chan\<close> afterwards (indeterminate where stb did not
  write them).\<close>

record stbi_result =
  stbi_loaded :: "real list option"
  stbi_w :: int
  stbi_h :: int
  stbi_nb_chan :: int

record env =
  file_lines :: "string \<Rightarrow> string list option"
    \<comment> \<open>the lines \<^verbatim>\<open>std::getline\<close> yields for a path; \<open>None\<close> when the file does not open\<close>
  num_get :: "string \<Rightarrow> (real \<times> string) option"
    \<comment> \<open>the conversion of \<^verbatim>\<open>operator>>(float&)\<close> on the unread characters, leading
        whitespace already skipped: the value and the characters left, or a failure\<close>
  new_LightProp :: LightProp      \<comment> \<open>the indeterminate \<^verbatim>\<open>LightProp plight;\<close>\<close>
  new_SceneData :: SceneData      \<comment> \<open>the indeterminate \<^verbatim>\<open>new SceneData\<close>\<close>
  new_Camera :: Camera            \<comment> \<open>the indeterminate \<^verbatim>\<open>new Camera\<close> or \<^verbatim>\<open>_init_camera\<close>\<close>
  new_Mesh :: Mesh                \<comment> \<open>an element of the indeterminate \<^verbatim>\<open>new Mesh[n]\<close>\<close>
  new_Texture :: Texture          \<comment> \<open>an element of the indeterminate \<^verbatim>\<open>new Texture[n]\<close>\<close>
  new_float :: real               \<comment> \<open>an element of the indeterminate \<^verbatim>\<open>new float[n]\<close>\<close>
  load_obj :: "string \<Rightarrow> string \<Rightarrow> obj_result"
  load_textures :: "material_t list \<Rightarrow> string \<Rightarrow> HostTexture list \<times> Material list"
    \<comment> \<open>\<^verbatim>\<open>MaterialLoader(materials, base_folder).load(cpu_textures, cpu_mat)\<close>\<close>
  load_materials :: "material_t list \<Rightarrow> string \<Rightarrow> Material list"
    \<comment> \<open>\<^verbatim>\<open>MaterialLoader::instance()->set(..); load(cpu_mat)\<close>\<close>
  stbi_loadf :: "string \<Rightarrow> stbi_result"
  append_cube_faces :: "real list \<Rightarrow> int \<Rightarrow> int \<Rightarrow> nat \<Rightarrow> real list"
    \<comment> \<open>the three \<^verbatim>\<open>texture::append_cube_faces\<close> calls: from the decoded cross, its
        width, its channel count and the face size to the six faces\<close>
  LONG_MAX :: nat

subsection \<open>std::stringstream over one line\<close>

text \<open>The unread characters and the \<^verbatim>\<open>failbit\<close>. The \<^verbatim>\<open>eofbit\<close> is set exactly when the
  stream has been read to its end, so it is not stored.\<close>

record sstream =
  unread :: string
  failbit :: bool

definition isspace :: "char \<Rightarrow> bool" where
  "isspace c = (c \<in> set [CHR '' '', CHR 0x09, CHR 0x0A, CHR 0x0B, CHR 0x0C, CHR 0x0D])"

definition stringstream :: "string \<Rightarrow> sstream" where
  "stringstream line = \<lparr>unread = line, failbit = False\<rparr>"

text \<open>\<^verbatim>\<open>iss.peek() == std::char_traits<char>::eof()\<close>: true at the end of the line and on
  a stream that is no longer good.\<close>

definition peek_eof :: "sstream \<Rightarrow> bool" where
  "peek_eof s = (failbit s \<or> unread s = [])"

text \<open>\<^verbatim>\<open>iss >> token\<close> for a \<^verbatim>\<open>std::string\<close>: when no character can be extracted the
  string keeps its old value.\<close>

definition get_token :: "string \<Rightarrow> sstream \<Rightarrow> string \<times> sstream" where
  "get_token old s =
     (if failbit s then (old, s)
      else (let b = dropWhile isspace (unread s) in
            if b = [] then (old, \<lparr>unread = [], failbit = True\<rparr>)
            else (takeWhile (\<lambda>c. \<not> isspace c) b,
                  \<lparr>unread = dropWhile (\<lambda>c. \<not> isspace c) b, failbit = False\<rparr>)))"

text \<open>\<^verbatim>\<open>iss >> x\<close> for a \<^verbatim>\<open>float\<close>: a stream that is not good or holds only whitespace
  leaves \<open>x\<close> as it was; a failed conversion stores 0 (C++11); both set the failbit.\<close>

definition get_float :: "env \<Rightarrow> real \<Rightarrow> sstream \<Rightarrow> real \<times> sstream" where
  "get_float E old s =
     (if failbit s then (old, s)
      else (let b = dropWhile isspace (unread s) in
            if b = [] then (old, \<lparr>unread = [], failbit = True\<rparr>)
            else (case num_get E b of
                    None \<Rightarrow> (0, \<lparr>unread = b, failbit = True\<rparr>)
                  | Some (x, r) \<Rightarrow> (x, \<lparr>unread = r, failbit = False\<rparr>))))"

subsection \<open>parse\_double3, parse\_float, parse\_camera\<close>

text \<open>\<^verbatim>\<open>parse_double3(out, iss)\<close>: the flag returned, \<open>out\<close> afterwards and the stream
  afterwards. The third component is extracted without a check.\<close>

definition parse_double3 :: "env \<Rightarrow> vec3 \<Rightarrow> sstream \<Rightarrow> bool \<times> vec3 \<times> sstream" where
  "parse_double3 E out s =
     (if peek_eof s then (False, out, s)
      else (case out of (x0, y0, z0) \<Rightarrow>
            case get_float E x0 s of (x, s1) \<Rightarrow>
            if peek_eof s1 then (False, (x, y0, z0), s1)
            else (case get_float E y0 s1 of (y, s2) \<Rightarrow>
                  if peek_eof s2 then (False, (x, y, z0), s2)
                  else (case get_float E z0 s2 of (z, s3) \<Rightarrow> (True, (x, y, z), s3)))))"

definition parse_float :: "env \<Rightarrow> sstream \<Rightarrow> real \<Rightarrow> real \<times> sstream" where
  "parse_float E s default_val =
     (if peek_eof s then (default_val, s) else get_float E 0 s)"

definition cross :: "vec3 \<Rightarrow> vec3 \<Rightarrow> vec3" where
  "cross a b =
     (case a of (ax, ay, az) \<Rightarrow> case b of (bx, by, bz) \<Rightarrow>
        (ay * bz - az * by, az * bx - ax * bz, ax * by - ay * bx))"

text \<open>\<^verbatim>\<open>normalize\<close>: the vector scaled by the inverse square root of its dot product with
  itself (for the zero vector the source yields non-finite floats; the value here then
  carries no meaning).\<close>

definition normalize3 :: "vec3 \<Rightarrow> vec3" where
  "normalize3 a =
     (case a of (ax, ay, az) \<Rightarrow>
        (let n = sqrt (ax * ax + ay * ay + az * az) in (ax / n, ay / n, az / n)))"

text \<open>scene/scene.cpp: position, direction, field of view, then the optional focus
  distance and aperture. The camera is written through the reference also when the
  function returns false.\<close>

definition parse_camera_dir :: "env \<Rightarrow> Camera \<Rightarrow> sstream \<Rightarrow> bool \<times> Camera" where
  "parse_camera_dir E c s =
     (case parse_double3 E (position c) s of (ok1, pos, s1) \<Rightarrow>
      if \<not> ok1 then (False, c\<lparr>position := pos\<rparr>)
      else (case parse_double3 E (dir c) s1 of (ok2, d, s2) \<Rightarrow>
            if \<not> ok2 then (False, c\<lparr>position := pos, dir := d\<rparr>)
            else if peek_eof s2 then (False, c\<lparr>position := pos, dir := normalize3 d\<rparr>)
            else (case get_float E (fov_x c) s2 of (f, s3) \<Rightarrow>
                  case parse_float E s3 2 of (fd, s4) \<Rightarrow>
                  case parse_float E s4 0.125 of (ap, s5) \<Rightarrow>
                    (True, c\<lparr>position := pos, dir := normalize3 d,
                              fov_x := (f * pi) / 180, focus_dist := fd, aperture := ap,
                              speed := 1.4\<rparr>))))"

text \<open>scene.cpp: position, the two basis vectors, field of view; the direction is their
  cross product.\<close>

definition parse_camera_top :: "env \<Rightarrow> Camera \<Rightarrow> sstream \<Rightarrow> bool \<times> Camera" where
  "parse_camera_top E c s =
     (case parse_double3 E (position c) s of (ok1, pos, s1) \<Rightarrow>
      if \<not> ok1 then (False, c\<lparr>position := pos\<rparr>)
      else (case parse_double3 E (cam_u c) s1 of (ok2, uu, s2) \<Rightarrow>
            if \<not> ok2 then (False, c\<lparr>position := pos, cam_u := uu\<rparr>)
            else (case parse_double3 E (cam_v c) s2 of (ok3, vv, s3) \<Rightarrow>
                  if \<not> ok3 then (False, c\<lparr>position := pos, cam_u := uu, cam_v := vv\<rparr>)
                  else if peek_eof s3
                  then (False, c\<lparr>position := pos, cam_u := uu, cam_v := vv\<rparr>)
                  else (case get_float E (fov_x c) s3 of (f, s4) \<Rightarrow>
                          (True, c\<lparr>position := pos, cam_u := normalize3 uu,
                                    cam_v := normalize3 vv, fov_x := (f * pi) / 180,
                                    dir := cross (normalize3 uu) (normalize3 vv)\<rparr>)))))"

subsection \<open>parse\_scene\<close>

text \<open>The fields of a \<^verbatim>\<open>p_light\<close> line, read in the same order and with the same four
  checks in both files; \<open>Inl\<close> names the check that failed. The radius is extracted
  without a check.\<close>

datatype light_field = LVec | LColor | LEmission | LRadius

definition p_light_fields :: "env \<Rightarrow> sstream \<Rightarrow> light_field + LightProp" where
  "p_light_fields E s =
     (case parse_double3 E (vec (new_LightProp E)) s of (ok1, pv, s1) \<Rightarrow>
      if \<not> ok1 then Inl LVec
      else (case parse_double3 E (color (new_LightProp E)) s1 of (ok2, pc, s2) \<Rightarrow>
            if \<not> ok2 then Inl LColor
            else if peek_eof s2 then Inl LEmission
            else (case get_float E (emission (new_LightProp E)) s2 of (em, s3) \<Rightarrow>
                  if peek_eof s3 then Inl LRadius
                  else (case get_float E (radius (new_LightProp E)) s3 of (ra, s4) \<Rightarrow>
                        Inr \<lparr>color = pc, vec = pv, emission = em, radius = ra\<rparr>))))"

text \<open>The variables of \<^verbatim>\<open>parse_scene\<close> that live across the lines of the file.
  \<^verbatim>\<open>token\<close> is declared outside the loop: a line of whitespace only leaves it as the
  line before set it.\<close>

record pstate =
  token :: string
  cam :: Camera
  light_vec :: "LightProp list"
  objfile :: string
  cubemapfile :: string
  cerr :: "string list"

definition say :: "string \<Rightarrow> pstate \<Rightarrow> pstate" where
  "say msg st = st\<lparr>cerr := cerr st @ [msg]\<rparr>"

definition light_msg_dir :: "light_field \<Rightarrow> string" where
  "light_msg_dir f =
     (case f of
        LVec \<Rightarrow> ''parse_scene(): error parsing p_light pos''
      | LColor \<Rightarrow> ''parse_scene(): error parsing p_light color''
      | LEmission \<Rightarrow> ''parse_scene(): error parsing p_light emission''
      | LRadius \<Rightarrow> ''parse_scene(): error parsing p_light radius'')"

definition light_msg_top :: "light_field \<Rightarrow> string" where
  "light_msg_top f =
     (case f of
        LVec \<Rightarrow> ''parse_scene(): error parsing p_light vector.''
      | LColor \<Rightarrow> ''parse_scene(): error parsing p_light color.''
      | LEmission \<Rightarrow> ''parse_scene(): error parsing p_light emission.''
      | LRadius \<Rightarrow> ''parse_scene(): error parsing p_light radius.'')"

text \<open>scene/scene.cpp, the body of the \<^verbatim>\<open>while (std::getline(file, line))\<close> loop: every
  failure writes to \<^verbatim>\<open>std::cerr\<close> and continues with the next line.\<close>

definition parse_line_dir :: "env \<Rightarrow> string \<Rightarrow> pstate \<Rightarrow> pstate" where
  "parse_line_dir E line st =
     (if line = [] \<or> hd line = CHR ''#'' then st
      else (case get_token (token st) (stringstream line) of (tok, iss) \<Rightarrow>
            if tok = ''p_light'' then
              (case p_light_fields E iss of
                 Inl f \<Rightarrow> say (light_msg_dir f) (st\<lparr>token := tok\<rparr>)
               | Inr plight \<Rightarrow> st\<lparr>token := tok, light_vec := light_vec st @ [plight]\<rparr>)
            else if tok = ''scene'' then
              (if peek_eof iss
               then say ''parse_scene(): error parsing scene file name'' (st\<lparr>token := tok\<rparr>)
               else st\<lparr>token := tok, objfile := fst (get_token (objfile st) iss)\<rparr>)
            else if tok = ''camera'' then
              (case parse_camera_dir E (cam st) iss of (ok, c) \<Rightarrow>
                 if \<not> ok
                 then say ''parse_scene(): error parsing the camera'' (st\<lparr>token := tok, cam := c\<rparr>)
                 else st\<lparr>token := tok, cam := c\<rparr>)
            else if tok = ''cubemap'' then
              (if \<not> peek_eof iss
               then st\<lparr>token := tok, cubemapfile := fst (get_token (cubemapfile st) iss)\<rparr>
               else st\<lparr>token := tok\<rparr>)
            else st\<lparr>token := tok\<rparr>))"

fun parse_lines_dir :: "env \<Rightarrow> string list \<Rightarrow> pstate \<Rightarrow> pstate" where
  "parse_lines_dir E [] st = st"
| "parse_lines_dir E (line # rest) st = parse_lines_dir E rest (parse_line_dir E line st)"

text \<open>scene.cpp, the body of the same loop: every failure throws.\<close>

definition parse_line_top :: "env \<Rightarrow> string \<Rightarrow> pstate \<Rightarrow> error + pstate" where
  "parse_line_top E line st =
     (if line = [] \<or> hd line = CHR ''#'' then Inr st
      else (case get_token (token st) (stringstream line) of (tok, iss) \<Rightarrow>
            if tok = ''p_light'' then
              (case p_light_fields E iss of
                 Inl f \<Rightarrow> Inl (RuntimeError (light_msg_top f))
               | Inr plight \<Rightarrow> Inr (st\<lparr>token := tok, light_vec := light_vec st @ [plight]\<rparr>))
            else if tok = ''cubemap'' then
              (if peek_eof iss
               then Inl (RuntimeError ''parse_scene(): error parsing cubemap file name.'')
               else Inr (st\<lparr>token := tok, cubemapfile := fst (get_token (cubemapfile st) iss)\<rparr>))
            else if tok = ''scene'' then
              (if peek_eof iss
               then Inl (RuntimeError ''parse_scene(): error parsing scene file name.'')
               else Inr (st\<lparr>token := tok, objfile := fst (get_token (objfile st) iss)\<rparr>))
            else if tok = ''camera'' then
              (case parse_camera_top E (cam st) iss of (ok, c) \<Rightarrow>
                 if \<not> ok then Inl (RuntimeError ''parse_scene(): error parsing the camera.'')
                 else Inr (st\<lparr>token := tok, cam := c\<rparr>))
            else Inr (st\<lparr>token := tok\<rparr>)))"

fun parse_lines_top :: "env \<Rightarrow> string list \<Rightarrow> pstate \<Rightarrow> error + pstate" where
  "parse_lines_top E [] st = Inr st"
| "parse_lines_top E (line # rest) st =
     (case parse_line_top E line st of
        Inl e \<Rightarrow> Inl e
      | Inr st1 \<Rightarrow> parse_lines_top E rest st1)"

text \<open>The default camera both files create before the loop.\<close>

definition default_camera :: "Camera \<Rightarrow> Camera" where
  "default_camera c =
     c\<lparr>cam_u := (1, 0, 0), cam_v := (0, - 1, 0), fov_x := (90 * pi) / 180,
       dir := cross (1, 0, 0) (0, - 1, 0)\<rparr>"

text \<open>What \<^verbatim>\<open>parse_scene\<close> leaves in its four reference parameters, and the device.\<close>

record parsed =
  out_scene :: SceneData
  out_cam :: Camera
  out_objfile :: string
  out_cubemap :: string
  out_dev :: device

text \<open>The copy of the lights to the device that ends both versions, after the test
  \<^verbatim>\<open>light_vec.size() == 0\<close>.\<close>

definition upload_lights :: "LightProp list \<Rightarrow> SceneData \<Rightarrow> device \<Rightarrow> SceneData \<times> device" where
  "upload_lights lv sd d =
     (case cudaMalloc (length lv) d of (p, d1) \<Rightarrow>
        (sd\<lparr>lights := \<lparr>buf_size = length lv, buf_data = p\<rparr>\<rparr>,
         cudaMemcpyH2D p (Lights lv) d1))"

definition start_pstate :: "Camera \<Rightarrow> string \<Rightarrow> string \<Rightarrow> pstate" where
  "start_pstate c objf cubemapf =
     \<lparr>token = [], cam = default_camera c, light_vec = [], objfile = objf,
      cubemapfile = cubemapf, cerr = []\<rparr>"

text \<open>scene/scene.cpp: a file that does not open is reported and nothing is written;
  \<^verbatim>\<open>lights.size\<close> is set to 0 before the test for an empty light list.\<close>

definition parse_scene_dir ::
  "env \<Rightarrow> string \<Rightarrow> SceneData \<Rightarrow> Camera \<Rightarrow> string \<Rightarrow> string \<Rightarrow> device \<Rightarrow> parsed" where
  "parse_scene_dir E filename sd c objf cubemapf d =
     (case file_lines E filename of
        None \<Rightarrow>
          \<lparr>out_scene = sd, out_cam = c, out_objfile = objf, out_cubemap = cubemapf,
           out_dev = emit (Cerr (''arttracer: parse_scene(): failed to open '' @ [CHR 0x27]
                                 @ filename @ [CHR 0x27])) d\<rparr>
      | Some ls \<Rightarrow>
          (let st = parse_lines_dir E ls (start_pstate c objf cubemapf);
               d1 = fold (\<lambda>msg. emit (Cerr msg)) (cerr st) d;
               sd1 = sd\<lparr>lights := (lights sd)\<lparr>buf_size := 0\<rparr>\<rparr>
           in if length (light_vec st) = 0
              then \<lparr>out_scene = sd1, out_cam = cam st, out_objfile = objfile st,
                    out_cubemap = cubemapfile st, out_dev = d1\<rparr>
              else (case upload_lights (light_vec st) sd1 d1 of (sd2, d2) \<Rightarrow>
                    \<lparr>out_scene = sd2, out_cam = cam st, out_objfile = objfile st,
                     out_cubemap = cubemapfile st, out_dev = d2\<rparr>)))"

text \<open>scene.cpp: a file that does not open throws; with an empty light list the function
  returns before \<^verbatim>\<open>lights.size\<close> is written.\<close>

definition parse_scene_top ::
  "env \<Rightarrow> string \<Rightarrow> SceneData \<Rightarrow> Camera \<Rightarrow> string \<Rightarrow> string \<Rightarrow> device \<Rightarrow> error + parsed" where
  "parse_scene_top E filename sd c objf cubemapf d =
     (case file_lines E filename of
        None \<Rightarrow>
          Inl (RuntimeError (''parse_scene(): failed to open '' @ [CHR 0x27] @ filename
                             @ [CHR 0x27]))
      | Some ls \<Rightarrow>
          (case parse_lines_top E ls (start_pstate c objf cubemapf) of
             Inl e \<Rightarrow> Inl e
           | Inr st \<Rightarrow>
               if length (light_vec st) = 0
               then Inr \<lparr>out_scene = sd, out_cam = cam st, out_objfile = objfile st,
                         out_cubemap = cubemapfile st, out_dev = d\<rparr>
               else (case upload_lights (light_vec st) sd d of (sd2, d2) \<Rightarrow>
                     Inr \<lparr>out_scene = sd2, out_cam = cam st, out_objfile = objfile st,
                          out_cubemap = cubemapfile st, out_dev = d2\<rparr>)))"

subsection \<open>The cubemap uploader (scene.cpp)\<close>

definition hex_digits :: string where
  "hex_digits = ''0123456789abcdefABCDEF''"

text \<open>\<^verbatim>\<open>s.compare(0, 2, "0x") == 0 && s.size() > 2 &&
  s.find_first_not_of("0123456789abcdefABCDEF", 2) == npos\<close>\<close>

definition isHexa :: "string \<Rightarrow> bool" where
  "isHexa s = (take 2 s = ''0x'' \<and> length s > 2 \<and> list_all (\<lambda>c. c \<in> set hex_digits) (drop 2 s))"

definition hex_val :: "char \<Rightarrow> nat" where
  "hex_val c =
     (if c \<in> set ''0123456789'' then of_char c - 48
      else if c \<in> set ''abcdef'' then of_char c - 87
      else of_char c - 55)"

text \<open>\<^verbatim>\<open>strtol(s, NULL, 16)\<close> on a string that starts with \<^verbatim>\<open>0x\<close> (the only strings it is
  called on): the value of the hexadecimal digits that follow, at most \<^verbatim>\<open>LONG_MAX\<close>.\<close>

definition strtol16 :: "env \<Rightarrow> string \<Rightarrow> nat" where
  "strtol16 E s =
     min (LONG_MAX E)
       (foldl (\<lambda>acc c. 16 * acc + hex_val c) 0 (takeWhile (\<lambda>c. c \<in> set hex_digits) (drop 2 s)))"

definition store :: "nat \<Rightarrow> 'a \<Rightarrow> 'a list \<Rightarrow> error + 'a list" where
  "store i x xs = (if i < length xs then Inr (xs[i := x]) else Inl OutOfRange)"

text \<open>The body of the loop over the faces in \<^verbatim>\<open>createUnitTexture\<close>. The inner loop
  \<^verbatim>\<open>for (i = 0; i < nb_elt; i += nb_chan)\<close> runs once when \<^verbatim>\<open>nb_chan > 0\<close> (\<^verbatim>\<open>nb_elt\<close> is
  \<^verbatim>\<open>nb_chan\<close>, the texture being 1 by 1) and not at all otherwise.\<close>

definition unit_face :: "real \<Rightarrow> real \<Rightarrow> real \<Rightarrow> nat \<Rightarrow> nat \<Rightarrow> real list \<Rightarrow> error + real list" where
  "unit_face r g b nb_elt n img =
     (if 0 < nb_elt
      then bindE (store (n * nb_elt) r img) (\<lambda>i1.
           bindE (store (n * nb_elt + 1) g i1) (\<lambda>i2.
           bindE (store (n * nb_elt + 2) b i2) (\<lambda>i3.
           store (n * nb_elt + 3) 0 i3)))
      else Inr img)"

fun unit_faces :: "real \<Rightarrow> real \<Rightarrow> real \<Rightarrow> nat \<Rightarrow> nat list \<Rightarrow> real list \<Rightarrow> error + real list" where
  "unit_faces r g b nb_elt [] img = Inr img"
| "unit_faces r g b nb_elt (n # ns) img =
     (case unit_face r g b nb_elt n img of
        Inl e \<Rightarrow> Inl e
      | Inr img1 \<Rightarrow> unit_faces r g b nb_elt ns img1)"

definition createUnitTexture :: "env \<Rightarrow> nat \<Rightarrow> nat \<Rightarrow> nat \<Rightarrow> error + real list" where
  "createUnitTexture E nb_chn colour nb_faces =
     unit_faces (real ((colour div 65536) mod 256) / 255)
                (real ((colour div 256) mod 256) / 255)
                (real (colour mod 256) / 255)
                (1 * 1 * nb_chn) [0..<nb_faces]
                (replicate ((1 * 1 * nb_chn) * nb_faces) (new_float E))"

definition NB_COMP :: nat where "NB_COMP = 4"
definition NB_FACES :: nat where "NB_FACES = 6"
definition DEFAULT_COLOR :: nat where "DEFAULT_COLOR = 0x05070A"

text \<open>C integer division (towards zero) and the conversion of an \<^verbatim>\<open>int\<close> to
  \<^verbatim>\<open>unsigned int\<close>.\<close>

definition tdiv :: "int \<Rightarrow> int \<Rightarrow> int" where
  "tdiv a b = sgn a * sgn b * (\<bar>a\<bar> div \<bar>b\<bar>)"

definition to_unsigned :: "int \<Rightarrow> nat" where
  "to_unsigned i = nat (i mod 2 ^ 32)"

text \<open>The first half of \<^verbatim>\<open>upload_cubemap\<close>: the host image \<^verbatim>\<open>img\<close> and the face size
  \<^verbatim>\<open>size\<close> the device calls are then made with. \<^verbatim>\<open>size\<close> starts as 1 and is overwritten
  by \<^verbatim>\<open>w / 4\<close> as soon as a path is loaded, before the checks.\<close>

definition cubemap_image :: "env \<Rightarrow> string \<Rightarrow> device \<Rightarrow> error + (nat \<times> real list \<times> device)" where
  "cubemap_image E path d =
     (if path = [] \<or> isHexa path
      then bindE (createUnitTexture E NB_COMP
                    (if path = [] then DEFAULT_COLOR else strtol16 E path mod 2 ^ 32) NB_FACES)
             (\<lambda>img. Inr (1, img, d))
      else (let r = stbi_loadf E path;
                d1 = emit (StbiLoadf path) d;
                sz = to_unsigned (tdiv (stbi_w r) 4);
                err = (case stbi_loaded r of
                         None \<Rightarrow> ''unknown error '' @ path
                       | Some px \<Rightarrow>
                           if sz \<noteq> to_unsigned (tdiv (stbi_h r) 3)
                           then ''width and height are not the same''
                           else if and sz ((sz + 2 ^ 32 - 1) mod 2 ^ 32) \<noteq> 0
                           then ''size should be a power of 2''
                           else [])
            in if err = []
               then Inr (sz,
                         take ((sz * sz * NB_COMP * NB_FACES) mod 2 ^ 32)
                           (append_cube_faces E (case stbi_loaded r of None \<Rightarrow> [] | Some px \<Rightarrow> px) (stbi_w r) (stbi_nb_chan r) sz
                            @ replicate ((sz * sz * NB_COMP * NB_FACES) mod 2 ^ 32) (new_float E)),
                         d1)
               else bindE (createUnitTexture E NB_COMP DEFAULT_COLOR NB_FACES)
                      (\<lambda>img. Inr (sz, img,
                                   emit (Cerr (''arttracer: cubemap loading fail: '' @ err)) d1))))"

text \<open>The second half: the channel descriptor, \<^verbatim>\<open>cudaMalloc3DArray\<close> of
  \<open>size \<times> size \<times> NB_FACES\<close> texels and the \<^verbatim>\<open>cudaMemcpy3D\<close> that reads that many texels
  of \<^verbatim>\<open>NB_COMP\<close> floats from \<^verbatim>\<open>img\<close>. A cube array of extent zero is refused by the device
  (\<^verbatim>\<open>cudaThrowError\<close> throws); reading more floats than \<^verbatim>\<open>img\<close> holds is undefined.\<close>

definition cubemap_to_device :: "nat \<Rightarrow> real list \<Rightarrow> SceneData \<Rightarrow> device \<Rightarrow> error + (SceneData \<times> device)" where
  "cubemap_to_device sz img sd d =
     (if sz = 0 then Inl (RuntimeError ''cudaMalloc3DArray'')
      else (let p = Dev (next_addr d);
                d1 = emit (CudaMalloc3DArray sz p)
                       (d\<lparr>next_addr := Suc (next_addr d),
                          allocs := allocs d @ [(next_addr d, Uninit)]\<rparr>)
            in if length img < sz * sz * NB_FACES * NB_COMP then Inl OutOfRange
               else Inr (sd\<lparr>cubemap_desc := (32, 32, 32, 32), cubemap := p\<rparr>,
                         emit (CudaMemcpy3D p sz)
                           (d1\<lparr>allocs := map (\<lambda>(k, c). if Dev k = p
                                   then (k, Cube sz (take (sz * sz * NB_FACES * NB_COMP) img))
                                   else (k, c)) (allocs d1)\<rparr>))))"

definition upload_cubemap :: "env \<Rightarrow> string \<Rightarrow> SceneData \<Rightarrow> device \<Rightarrow> error + (SceneData \<times> device)" where
  "upload_cubemap E path sd d =
     bindE (cubemap_image E path d) (\<lambda>(sz, img, d1). cubemap_to_device sz img sd d1)"

subsection \<open>The material uploaders\<close>

text \<open>The product of two \<^verbatim>\<open>int\<close> values as the compiled code computes it: in 32 bits,
  a product out of range wraps around.\<close>

definition int_mul :: "int \<Rightarrow> int \<Rightarrow> int" where
  "int_mul x y = (x * y + 2 ^ 31) mod 2 ^ 32 - 2 ^ 31"

text \<open>scene.cpp, the loop over the decoded textures: one allocation and one copy of
  \<^verbatim>\<open>cpu_tex.w * cpu_tex.h * cpu_tex.nb_chan * sizeof(float)\<close> bytes per texture. The three
  \<^verbatim>\<open>int\<close> factors are multiplied in \<^verbatim>\<open>int\<close> before the conversion to \<^verbatim>\<open>size_t\<close>: a product
  that wraps to zero allocates and copies nothing, and a negative one converts to a size
  of at least \<open>2 ^ 64 - 2 ^ 33\<close> bytes, which the device refuses (\<^verbatim>\<open>cudaThrowError\<close>
  throws).\<close>

fun upload_textures :: "HostTexture list \<Rightarrow> device \<Rightarrow> error + (Texture list \<times> device)" where
  "upload_textures [] d = Inr ([], d)"
| "upload_textures (t # ts) d =
     (if int_mul (int_mul (host_w t) (host_h t)) (host_nb_chan t) < 0
      then Inl (RuntimeError ''cudaMalloc'')
      else (case cudaMalloc (nat (int_mul (int_mul (host_w t) (host_h t)) (host_nb_chan t))) d
            of (p, d1) \<Rightarrow>
            (case upload_textures ts
                    (cudaMemcpyH2D p
                       (Pixels (take (nat (int_mul (int_mul (host_w t) (host_h t))
                                                   (host_nb_chan t)))
                                     (host_pixels t))) d1) of
               Inl e \<Rightarrow> Inl e
             | Inr (gts, d2) \<Rightarrow>
                 Inr (\<lparr>tex_w = host_w t, tex_h = host_h t, tex_nb_chan = host_nb_chan t,
                       tex_data = p\<rparr> # gts, d2))))"

text \<open>scene.cpp: \<^verbatim>\<open>textures.size\<close> is set from \<^verbatim>\<open>cpu_mat.size()\<close>.\<close>

definition upload_materials_top ::
  "env \<Rightarrow> material_t list \<Rightarrow> SceneData \<Rightarrow> string \<Rightarrow> device \<Rightarrow> error + (SceneData \<times> device)" where
  "upload_materials_top E mats sd base_folder d =
     (case load_textures E mats base_folder of (cpu_textures, cpu_mat) \<Rightarrow>
      (case upload_textures cpu_textures d of
        Inl e \<Rightarrow> Inl e
      | Inr (gpu_textures, d1) \<Rightarrow>
          (case (if length gpu_textures \<noteq> 0
                 then (case cudaMalloc (length cpu_textures) d1 of (p, d2) \<Rightarrow>
                         (sd\<lparr>textures := (textures sd)\<lparr>buf_data := p\<rparr>\<rparr>,
                          cudaMemcpyH2D p (Textures gpu_textures) d2))
                 else (sd, d1)) of (sd1, d3) \<Rightarrow>
           case (if length cpu_mat \<noteq> 0
                 then (case cudaMalloc (length cpu_mat) d3 of (p, d4) \<Rightarrow>
                         (sd1\<lparr>materials := (materials sd1)\<lparr>buf_data := p\<rparr>\<rparr>,
                          cudaMemcpyH2D p (Materials cpu_mat) d4))
                 else (sd1, d3)) of (sd2, d5) \<Rightarrow>
             Inr (sd2\<lparr>materials := (materials sd2)\<lparr>buf_size := length cpu_mat\<rparr>,
                       textures := (textures sd2)\<lparr>buf_size := length cpu_mat\<rparr>\<rparr>, d5))))"

definition upload_materials_dir ::
  "env \<Rightarrow> material_t list \<Rightarrow> SceneData \<Rightarrow> string \<Rightarrow> device \<Rightarrow> SceneData \<times> device" where
  "upload_materials_dir E mats sd base_folder d =
     (let cpu_mat = load_materials E mats base_folder in
      case (if length cpu_mat \<noteq> 0
            then (case cudaMalloc (length cpu_mat) d of (p, d1) \<Rightarrow>
                    (sd\<lparr>materials := (materials sd)\<lparr>buf_data := p\<rparr>\<rparr>,
                     cudaMemcpyH2D p (Materials cpu_mat) d1))
            else (sd, d)) of (sd1, d2) \<Rightarrow>
        (sd1\<lparr>materials := (materials sd1)\<lparr>buf_size := length cpu_mat\<rparr>\<rparr>, d2))"

subsection \<open>The Scene facade\<close>

text \<open>A host pointer: null, not pointing to a live object (indeterminate, or dangling
  after \<^verbatim>\<open>delete\<close>), or pointing to a live object with the given value.\<close>

datatype 'a host = HNull | HInvalid | HObj 'a

text \<open>The members of both versions of the class: \<^verbatim>\<open>_camera\<close> exists in scene.cpp only,
  \<^verbatim>\<open>_init_camera\<close> and \<^verbatim>\<open>_cubemap_path\<close> in scene/scene.cpp only.\<close>

record Scene =
  filepath :: string
  uploaded :: bool
  ready :: bool
  load_error :: string
  init_camera :: Camera
  cubemap_path :: string
  scene_data :: "SceneData host"
  camera :: "Camera host"
  d_scene_data :: ptr

text \<open>The constructors: scene.cpp leaves \<^verbatim>\<open>_scene_data\<close> and \<^verbatim>\<open>_camera\<close> unset.\<close>

definition Scene_top :: "env \<Rightarrow> string \<Rightarrow> Scene" where
  "Scene_top E path =
     \<lparr>filepath = path, uploaded = False, ready = False, load_error = [],
      init_camera = new_Camera E, cubemap_path = [], scene_data = HInvalid, camera = HInvalid,
      d_scene_data = Null\<rparr>"

definition Scene_dir :: "env \<Rightarrow> string \<Rightarrow> Scene" where
  "Scene_dir E path =
     \<lparr>filepath = path, uploaded = False, ready = False, load_error = [],
      init_camera = new_Camera E, cubemap_path = [], scene_data = HNull, camera = HNull,
      d_scene_data = Null\<rparr>"

text \<open>\<^verbatim>\<open>s.find_last_of(c)\<close>: the position of the last occurrence, \<open>None\<close> for \<^verbatim>\<open>npos\<close>.\<close>

definition find_last_of :: "string \<Rightarrow> char \<Rightarrow> nat option" where
  "find_last_of s c =
     (if c \<in> set s then Some (length s - 1 - length (takeWhile (\<lambda>x. x \<noteq> c) (rev s))) else None)"

text \<open>The three path strings \<^verbatim>\<open>upload\<close> builds from \<^verbatim>\<open>_filepath\<close> and the parsed
  \<^verbatim>\<open>objfilepath\<close>: \<^verbatim>\<open>base_dir\<close>, \<^verbatim>\<open>mtl_dir\<close>, \<^verbatim>\<open>full_obj_path\<close>.\<close>

definition base_dir_of :: "string \<Rightarrow> string" where
  "base_dir_of fp = (case find_last_of fp CHR ''/'' of None \<Rightarrow> [] | Some pos \<Rightarrow> take pos fp @ ''/'')"

definition full_obj_path_of :: "string \<Rightarrow> string \<Rightarrow> string" where
  "full_obj_path_of fp objfilepath =
     (case find_last_of fp CHR ''/'' of None \<Rightarrow> [] | Some pos \<Rightarrow> base_dir_of fp @ objfilepath)"

definition mtl_dir_of :: "string \<Rightarrow> string \<Rightarrow> string" where
  "mtl_dir_of fp objfilepath =
     (case find_last_of objfilepath CHR ''/'' of
        None \<Rightarrow> base_dir_of fp
      | Some pos \<Rightarrow> base_dir_of fp @ ''/'' @ take pos objfilepath @ ''/'')"

subsubsection \<open>scene/scene.cpp\<close>

definition upload_gpu_dir ::
  "env \<Rightarrow> shape_t list \<Rightarrow> material_t list \<Rightarrow> attrib_t \<Rightarrow> string \<Rightarrow> Scene \<Rightarrow> device
   \<Rightarrow> error + (Scene \<times> device)" where
  "upload_gpu_dir E shapes mats attrib base_folder sc d =
     (case scene_data sc of
        HObj sd \<Rightarrow>
          (case upload_materials_dir E mats sd base_folder d of (sd1, d1) \<Rightarrow>
           (case upload_meshes shapes attrib d1 of
              Inl e \<Rightarrow> Inl e
            | Inr (mb, d2) \<Rightarrow>
                (case cudaMalloc 1 d2 of (p, d3) \<Rightarrow>
                 Inr (sc\<lparr>scene_data := HObj (sd1\<lparr>meshes := mb\<rparr>), d_scene_data := p\<rparr>,
                      cudaMemcpyH2D p (Scene (sd1\<lparr>meshes := mb\<rparr>)) d3))))
      | _ \<Rightarrow> Inl BadPointer)"

text \<open>\<^verbatim>\<open>Scene::upload(scene::Camera* camera)\<close>: the pointer is \<open>None\<close> for \<^verbatim>\<open>nullptr\<close> and
  \<open>Some c\<close> for a camera holding \<open>c\<close>; the camera afterwards is returned.\<close>

definition upload_dir ::
  "env \<Rightarrow> Camera option \<Rightarrow> Scene \<Rightarrow> device \<Rightarrow> error + (Camera option \<times> Scene \<times> device)" where
  "upload_dir E camera_ptr sc d =
     (if uploaded sc then Inr (camera_ptr, sc, d)
      else (let r = parse_scene_dir E (filepath sc) (new_SceneData E) (init_camera sc) []
                      (cubemap_path sc) d;
                sc1 = sc\<lparr>scene_data := HObj (out_scene r), init_camera := out_cam r,
                        cubemap_path := out_cubemap r\<rparr>;
                cam1 = (case camera_ptr of None \<Rightarrow> None | Some c \<Rightarrow> Some (init_camera sc1));
                d1 = (case camera_ptr of None \<Rightarrow> out_dev r | Some c \<Rightarrow> emit CameraOut (out_dev r));
                full_obj_path = full_obj_path_of (filepath sc) (out_objfile r);
                mtl_dir = mtl_dir_of (filepath sc) (out_objfile r);
                res = load_obj E full_obj_path mtl_dir;
                d2 = emit (LoadObj full_obj_path mtl_dir) d1;
                sc2 = sc1\<lparr>ready := obj_ok res, load_error := obj_err res\<rparr>
            in if \<not> obj_ok res
               then Inr (cam1, sc2\<lparr>scene_data := HNull, d_scene_data := Null\<rparr>,
                         emit (Cerr (''arttracer: Scene.upload(): fail to load OBJ.'' @ [CHR 0x0A]
                                     @ obj_err res)) d2)
               else (case upload_gpu_dir E (obj_shapes res) (obj_materials res) (obj_attrib res)
                            mtl_dir sc2 d2 of
                       Inl e \<Rightarrow> Inl e
                     | Inr (sc3, d3) \<Rightarrow> Inr (cam1, sc3\<lparr>uploaded := True\<rparr>, d3))))"

text \<open>\<^verbatim>\<open>cudaMemcpy(meshes, data, n * sizeof(Mesh), cudaMemcpyDeviceToHost)\<close> into the
  indeterminate \<^verbatim>\<open>new Mesh[n]\<close>: a copy that does not fit a live allocation of meshes
  fails and leaves the host array as it was.\<close>

definition readback_meshes :: "env \<Rightarrow> device \<Rightarrow> ptr \<Rightarrow> nat \<Rightarrow> Mesh list" where
  "readback_meshes E d p n =
     (case peek_dev d p of
        Some (Meshes ms) \<Rightarrow> if n \<le> length ms then take n ms else replicate n (new_Mesh E)
      | _ \<Rightarrow> replicate n (new_Mesh E))"

definition release_gpu_dir :: "env \<Rightarrow> Scene \<Rightarrow> device \<Rightarrow> error + (Scene \<times> device)" where
  "release_gpu_dir E sc d =
     (case scene_data sc of
        HObj sd \<Rightarrow>
          (let nb_meshes = buf_size (meshes sd);
               ms = readback_meshes E d (buf_data (meshes sd)) nb_meshes;
               d1 = emit (CudaMemcpyD2H (buf_data (meshes sd)) nb_meshes) d;
               d2 = fold (\<lambda>m. cudaFree (buf_data (faces m))) ms d1;
               d3 = cudaFree (buf_data (meshes sd)) d2;
               d4 = cudaFree (buf_data (materials sd)) d3;
               d5 = cudaFree (buf_data (lights sd)) d4;
               d6 = cudaFree (d_scene_data sc) d5
           in Inr (sc\<lparr>scene_data := HInvalid, uploaded := False\<rparr>, d6))
      | _ \<Rightarrow> Inl BadPointer)"

definition release_dir :: "env \<Rightarrow> Scene \<Rightarrow> device \<Rightarrow> error + (Scene \<times> device)" where
  "release_dir E sc d =
     (if \<not> uploaded sc \<or> \<not> ready sc then Inr (sc, d)
      else (case release_gpu_dir E sc d of
              Inl e \<Rightarrow> Inl e
            | Inr (sc1, d1) \<Rightarrow> Inr (sc1\<lparr>uploaded := False\<rparr>, d1)))"

subsubsection \<open>scene.cpp\<close>

definition upload_gpu_top ::
  "env \<Rightarrow> shape_t list \<Rightarrow> material_t list \<Rightarrow> attrib_t \<Rightarrow> string \<Rightarrow> string \<Rightarrow> Scene \<Rightarrow> device
   \<Rightarrow> error + (Scene \<times> device)" where
  "upload_gpu_top E shapes mats attrib cubemap_file base_folder sc d =
     (case scene_data sc of
        HObj sd \<Rightarrow>
          bindE (upload_materials_top E mats sd base_folder d) (\<lambda>(sd1, d1).
          bindE (upload_meshes shapes attrib d1) (\<lambda>(mb, d2).
          bindE (upload_cubemap E cubemap_file (sd1\<lparr>meshes := mb\<rparr>) d2) (\<lambda>(sd3, d3).
            (case cudaMalloc 1 d3 of (p, d4) \<Rightarrow>
             Inr (sc\<lparr>scene_data := HObj sd3, d_scene_data := p\<rparr>,
                  cudaMemcpyH2D p (Scene sd3) d4)))))
      | _ \<Rightarrow> Inl BadPointer)"

text \<open>\<^verbatim>\<open>Scene::upload(bool is_cpu)\<close>. An exception of \<^verbatim>\<open>parse_scene\<close> leaves the function.\<close>

definition upload_top :: "env \<Rightarrow> Scene \<Rightarrow> device \<Rightarrow> error + (Scene \<times> device)" where
  "upload_top E sc d =
     (if uploaded sc then Inr (sc, d)
      else bindE (parse_scene_top E (filepath sc) (new_SceneData E) (new_Camera E) [] [] d)
        (\<lambda>r.
          (let sc1 = sc\<lparr>scene_data := HObj (out_scene r), camera := HObj (out_cam r)\<rparr>;
               cubemap_file =
                 (if find_last_of (filepath sc) CHR ''/'' \<noteq> None \<and> out_cubemap r \<noteq> []
                     \<and> \<not> isHexa (out_cubemap r)
                  then base_dir_of (filepath sc) @ out_cubemap r else out_cubemap r);
               full_obj_path = full_obj_path_of (filepath sc) (out_objfile r);
               mtl_dir = mtl_dir_of (filepath sc) (out_objfile r);
               res = load_obj E full_obj_path mtl_dir;
               d1 = emit (LoadObj full_obj_path mtl_dir) (out_dev r);
               sc2 = sc1\<lparr>ready := obj_ok res, load_error := obj_err res\<rparr>
           in if \<not> obj_ok res
              then Inr (sc2\<lparr>scene_data := HInvalid, camera := HInvalid\<rparr>, d1)
              else bindE (upload_gpu_top E (obj_shapes res) (obj_materials res) (obj_attrib res)
                            cubemap_file mtl_dir sc2 d1)
                     (\<lambda>(sc3, d3). Inr (sc3\<lparr>uploaded := True\<rparr>, d3)))))"

text \<open>The read-back of the texture descriptors, as for the meshes.\<close>

definition readback_textures :: "env \<Rightarrow> device \<Rightarrow> ptr \<Rightarrow> nat \<Rightarrow> Texture list" where
  "readback_textures E d p n =
     (case peek_dev d p of
        Some (Textures ts) \<Rightarrow> if n \<le> length ts then take n ts else replicate n (new_Texture E)
      | _ \<Rightarrow> replicate n (new_Texture E))"

definition release_gpu_top :: "env \<Rightarrow> Scene \<Rightarrow> device \<Rightarrow> error + (Scene \<times> device)" where
  "release_gpu_top E sc d =
     (case scene_data sc of
        HObj sd \<Rightarrow>
          (let nb_tex = buf_size (textures sd);
               ts = readback_textures E d (buf_data (textures sd)) nb_tex;
               d1 = emit (CudaMemcpyD2H (buf_data (textures sd)) nb_tex) d;
               d2 = fold (\<lambda>t. cudaFree (tex_data t)) ts d1;
               nb_meshes = buf_size (meshes sd);
               ms = readback_meshes E d2 (buf_data (meshes sd)) nb_meshes;
               d3 = emit (CudaMemcpyD2H (buf_data (meshes sd)) nb_meshes) d2;
               d4 = fold (\<lambda>m. cudaFree (buf_data (faces m))) ms d3;
               d5 = cudaFree (buf_data (materials sd)) d4;
               d6 = cudaFree (buf_data (lights sd)) d5;
               d7 = cudaFree (d_scene_data sc) d6
           in Inr (sc\<lparr>scene_data := HInvalid, camera := HInvalid, uploaded := False\<rparr>, d7))
      | _ \<Rightarrow> Inl BadPointer)"

definition release_top :: "env \<Rightarrow> Scene \<Rightarrow> device \<Rightarrow> error + (Scene \<times> device)" where
  "release_top E sc d =
     (if \<not> uploaded sc \<or> \<not> ready sc then Inr (sc, d)
      else (case release_gpu_top E sc d of
              Inl e \<Rightarrow> Inl e
            | Inr (sc1, d1) \<Rightarrow> Inr (sc1\<lparr>uploaded := False\<rparr>, d1)))"

section \<open>A concrete environment\<close>

text \<open>The closed examples below run the model in one fixed environment: a directory
  \<^verbatim>\<open>assets/\<close> with four scene files and one loadable model (a single textured triangle),
  indeterminate memory filled with sevens and with device addresses from 900 on, and a
  number conversion that reads an optional minus sign followed by decimal digits (on such
  tokens it agrees with the C++ extraction; the examples use no other).\<close>

definition read_int_literal :: "string \<Rightarrow> (real \<times> string) option" where
  "read_int_literal b =
     (let neg = (b \<noteq> [] \<and> hd b = CHR ''-'');
          b1 = (if neg then tl b else b);
          ds = takeWhile (\<lambda>c. c \<in> set ''0123456789'') b1
      in if ds = [] then None
         else Some ((if neg then - 1 else 1)
                      * real (foldl (\<lambda>acc c. 10 * acc + (of_char c - 48)) 0 ds),
                    dropWhile (\<lambda>c. c \<in> set ''0123456789'') b1))"

definition junk_cam :: Camera where
  "junk_cam =
     \<lparr>res = (7, 7), position = (7, 7, 7), dir = (7, 7, 7), cam_u = (7, 7, 7),
      cam_v = (7, 7, 7), fov_x = 7, focus_dist = 7, aperture = 7, speed = 7\<rparr>"

definition junk_scene :: SceneData where
  "junk_scene =
     \<lparr>meshes = \<lparr>buf_size = 7, buf_data = Dev 900\<rparr>,
      materials = \<lparr>buf_size = 7, buf_data = Dev 901\<rparr>,
      lights = \<lparr>buf_size = 7, buf_data = Dev 902\<rparr>,
      textures = \<lparr>buf_size = 7, buf_data = Dev 903\<rparr>,
      cubemap = Dev 904, cubemap_desc = (7, 7, 7, 7)\<rparr>"

definition tri_attrib :: attrib_t where
  "tri_attrib =
     \<lparr>attrib_vertices = [0, 0, 0, 1, 0, 0, 0, 1, 0], attrib_normals = [0, 0, 1],
      attrib_texcoords = [0, 0, 1, 0, 0, 1]\<rparr>"

definition corner :: "int \<Rightarrow> index_t" where
  "corner k = \<lparr>vertex_index = k, normal_index = 0, texcoord_index = k\<rparr>"

text \<open>A shape with the given index list and one material id per complete triple.\<close>

definition shape_of :: "index_t list \<Rightarrow> shape_t" where
  "shape_of ixs =
     \<lparr>name = ''shape'', mesh = \<lparr>indices = ixs, material_ids = replicate (length ixs div 3) 0\<rparr>\<rparr>"

definition tri_shape :: shape_t where
  "tri_shape = shape_of [corner 0, corner 1, corner 2]"

definition no_obj :: obj_result where
  "no_obj =
     \<lparr>obj_ok = False, obj_err = ''Cannot open file'',
      obj_attrib = \<lparr>attrib_vertices = [], attrib_normals = [], attrib_texcoords = []\<rparr>,
      obj_shapes = [], obj_materials = []\<rparr>"

definition tri_obj :: obj_result where
  "tri_obj =
     \<lparr>obj_ok = True, obj_err = [], obj_attrib = tri_attrib, obj_shapes = [tri_shape],
      obj_materials = [''m'']\<rparr>"

definition demo_env :: env where
  "demo_env =
     \<lparr>file_lines = (\<lambda>p.
        if p = ''assets/a.scene'' then Some [''p_light 0 4 0 1 1 1 5 2'', ''scene a.obj'']
        else if p = ''assets/dark.scene'' then Some [''# no lights'', ''scene a.obj'']
        else if p = ''assets/bad.scene''
          then Some [''p_light 1 2'', ''p_light 0 4 0 1 1 1 5 2'', ''scene a.obj'']
        else if p = ''assets/lost.scene''
          then Some [''p_light 0 4 0 1 1 1 5 2'', ''scene lost.obj'']
        else None),
      num_get = read_int_literal,
      new_LightProp = \<lparr>color = (7, 7, 7), vec = (7, 7, 7), emission = 7, radius = 7\<rparr>,
      new_SceneData = junk_scene,
      new_Camera = junk_cam,
      new_Mesh = \<lparr>faces = \<lparr>buf_size = 7, buf_data = Dev 905\<rparr>\<rparr>,
      new_Texture = \<lparr>tex_w = 7, tex_h = 7, tex_nb_chan = 7, tex_data = Dev 906\<rparr>,
      new_float = 7,
      load_obj = (\<lambda>p m. if p = ''assets/a.obj'' then tri_obj else no_obj),
      load_textures = (\<lambda>ms b.
        ([\<lparr>host_w = 1, host_h = 1, host_nb_chan = 4, host_pixels = [1, 1, 1, 1]\<rparr>],
         [\<lparr>diffuse_spec_map = 0, normal_map = - 1\<rparr>])),
      load_materials = (\<lambda>ms b. [\<lparr>diffuse_spec_map = 0, normal_map = - 1\<rparr>]),
      stbi_loadf = (\<lambda>p.
        if p = ''assets/sky.png''
        then \<lparr>stbi_loaded = Some (replicate 72 0), stbi_w = 8, stbi_h = 3, stbi_nb_chan = 3\<rparr>
        else \<lparr>stbi_loaded = None, stbi_w = 7, stbi_h = 7, stbi_nb_chan = 7\<rparr>),
      append_cube_faces = (\<lambda>px wd c sz. []),
      LONG_MAX = 2 ^ 63 - 1\<rparr>"

definition dev0 :: device where
  "dev0 = \<lparr>next_addr = 1, allocs = [], trace = []\<rparr>"

text \<open>The states the closed examples start from: the result of one \<^verbatim>\<open>upload\<close> of a scene
  file, as the model computes it.\<close>

definition ready_dir :: "Camera option \<times> Scene \<times> device" where
  "ready_dir = projr (upload_dir demo_env None (Scene_dir demo_env ''assets/a.scene'') dev0)"

definition failed_dir :: "Camera option \<times> Scene \<times> device" where
  "failed_dir = projr (upload_dir demo_env None (Scene_dir demo_env ''assets/lost.scene'') dev0)"

definition dark_dir :: "Camera option \<times> Scene \<times> device" where
  "dark_dir = projr (upload_dir demo_env None (Scene_dir demo_env ''assets/dark.scene'') dev0)"

definition ready_top :: "Scene \<times> device" where
  "ready_top = projr (upload_top demo_env (Scene_top demo_env ''assets/a.scene'') dev0)"

definition dark_top :: "Scene \<times> device" where
  "dark_top = projr (upload_top demo_env (Scene_top demo_env ''assets/dark.scene'') dev0)"

section \<open>Notions used in the statements\<close>

text \<open>The token a line yields by itself: what \<^verbatim>\<open>iss >> token\<close> reads from it into an
  empty string.\<close>

definition first_token :: "string \<Rightarrow> string" where
  "first_token line = fst (get_token [] (stringstream line))"

text \<open>Two devices that differ at most in the \<open>CameraOut\<close> events of their traces.\<close>

definition same_device :: "device \<Rightarrow> device \<Rightarrow> bool" where
  "same_device d d' =
     (next_addr d = next_addr d' \<and> allocs d = allocs d'
      \<and> removeAll CameraOut (trace d) = removeAll CameraOut (trace d'))"

text \<open>The image of a constant-colour cubemap: six faces of one texel of four floats,
  the red, green and blue bytes of the colour over 255 and a zero.\<close>

definition constant_cube :: "nat \<Rightarrow> real list" where
  "constant_cube colour =
     concat (replicate 6 [real ((colour div 65536) mod 256) / 255,
                          real ((colour div 256) mod 256) / 255,
                          real (colour mod 256) / 255, 0])"

text \<open>The trace of the second device is the trace of the first followed by events none
  of which is a write through the camera pointer.\<close>

definition device_work :: "device \<Rightarrow> device \<Rightarrow> bool" where
  "device_work d d' =
     (take (length (trace d)) (trace d') = trace d
      \<and> CameraOut \<notin> set (drop (length (trace d)) (trace d')))"

text \<open>A shape as \<^verbatim>\<open>tinyobj::LoadObj\<close> returns it to \<^verbatim>\<open>Scene::upload\<close>: both files call the
  loader without its \<^verbatim>\<open>triangulate\<close> argument, which is then on, and every face of the
  model arrives as triangles: the index count of a shape is a multiple of three.\<close>

definition triangle_list :: "shape_t \<Rightarrow> bool" where
  "triangle_list s = (length (indices (mesh s)) mod 3 = 0)"

text \<open>An index the loop can read three (or two) floats of a pool at.\<close>

definition readable3 :: "real list \<Rightarrow> int \<Rightarrow> bool" where
  "readable3 pool k = (0 \<le> k \<and> 3 * k + 2 < 2 ^ 31 \<and> nat (3 * k) + 2 < length pool)"

definition readable2 :: "real list \<Rightarrow> int \<Rightarrow> bool" where
  "readable2 pool k = (0 \<le> k \<and> 2 * k + 1 < 2 ^ 31 \<and> nat (2 * k) + 1 < length pool)"

text \<open>Every index of the shape names a vertex, a normal and a texture coordinate of the
  pools, and there is a material id for every triple.\<close>

definition indices_in_pools :: "attrib_t \<Rightarrow> shape_t \<Rightarrow> bool" where
  "indices_in_pools a s =
     (list_all (\<lambda>idx. readable3 (attrib_vertices a) (vertex_index idx)
                     \<and> readable3 (attrib_normals a) (normal_index idx)
                     \<and> readable2 (attrib_texcoords a) (texcoord_index idx))
               (indices (mesh s))
      \<and> length (indices (mesh s)) div 3 \<le> length (material_ids (mesh s)))"

text \<open>The mesh entry of a shape without faces: \<^verbatim>\<open>faces.size\<close> 0 and the null pointer of
  the value-initialised \<^verbatim>\<open>gpu_meshes[i]\<close>.\<close>

definition no_faces :: Mesh where
  "no_faces = \<lparr>faces = \<lparr>buf_size = 0, buf_data = Null\<rparr>\<rparr>"

section \<open>Evaluation and basic facts\<close>

lemmas model_defs =
  bindE_def emit_def cudaMalloc_def cudaMemcpyH2D_def peek_dev_def cudaFree_def
  fetch3_def fetch2_def sub3_def sub2_def read_corner_def face_tangent_def build_face_def
  Face0_def upload_shape_def upload_meshes_def isspace_def stringstream_def peek_eof_def
  get_token_def get_float_def parse_double3_def parse_float_def cross_def normalize3_def
  parse_camera_dir_def parse_camera_top_def p_light_fields_def say_def light_msg_dir_def
  light_msg_top_def parse_line_dir_def parse_line_top_def default_camera_def
  upload_lights_def start_pstate_def parse_scene_dir_def parse_scene_top_def hex_digits_def
  isHexa_def hex_val_def strtol16_def store_def unit_face_def createUnitTexture_def
  NB_COMP_def NB_FACES_def DEFAULT_COLOR_def tdiv_def to_unsigned_def cubemap_image_def
  cubemap_to_device_def upload_cubemap_def int_mul_def upload_materials_top_def
  upload_materials_dir_def
  Scene_top_def Scene_dir_def find_last_of_def base_dir_of_def full_obj_path_of_def
  mtl_dir_of_def upload_gpu_dir_def upload_dir_def readback_meshes_def release_gpu_dir_def
  release_dir_def upload_gpu_top_def upload_top_def readback_textures_def
  release_gpu_top_def release_top_def face_loop.simps Let_def upt_rec

lemmas demo_defs =
  read_int_literal_def junk_cam_def junk_scene_def tri_attrib_def corner_def shape_of_def
  tri_shape_def no_obj_def tri_obj_def demo_env_def dev0_def

section \<open>The face loop of upload\_meshes\<close>

lemma step3: "i mod 3 = 0 \<Longrightarrow> i div 3 < n div 3 \<Longrightarrow> i + 3 \<le> (n::nat)"
proof -
  assume a: "i mod 3 = 0" and b: "i div 3 < n div 3"
  have "i = 3 * (i div 3)" using a by (metis add.right_neutral div_mult_mod_eq mult.commute)
  moreover have "3 * (n div 3) \<le> n" by simp
  moreover have "3 * (i div 3) + 3 \<le> 3 * (n div 3)" using b by simp
  ultimately show ?thesis by linarith
qed

lemma read_corner_error: "read_corner a m j = Inl e \<Longrightarrow> e = OutOfRange"
  by (auto simp: read_corner_def fetch3_def fetch2_def bindE_def Let_def split: if_splits)

lemma build_face_error: "build_face a m i = Inl e \<Longrightarrow> e = OutOfRange"
  by (auto simp: build_face_def bindE_def split: sum.splits if_splits prod.splits
           dest: read_corner_error)

lemma face_loop_error: "face_loop a m i fs = Inl e \<Longrightarrow> e = OutOfRange"
proof (induction a m i fs rule: face_loop.induct)
  case (1 a m i fs)
  then show ?case
    by (subst (asm) (2) face_loop.simps)
       (auto split: if_splits sum.splits dest: build_face_error)
qed

lemma face_loop_length: "face_loop a m i fs = Inr fs' \<Longrightarrow> length fs' = length fs"
proof (induction a m i fs rule: face_loop.induct)
  case (1 a m i fs)
  then show ?case
    by (subst (asm) (2) face_loop.simps) (auto split: if_splits sum.splits)
qed

text \<open>With an index count that is not a multiple of three, the loop reaches
  \<open>i = 3 * (n div 3) < n\<close> and indexes \<^verbatim>\<open>faces[n / 3]\<close>, one past the vector (unless an
  earlier pass already read outside a pool).\<close>

lemma face_loop_ragged:
  "i mod 3 = 0 \<Longrightarrow> i \<le> length (indices m) \<Longrightarrow> length fs = length (indices m) div 3 \<Longrightarrow>
   length (indices m) mod 3 \<noteq> 0 \<Longrightarrow> \<exists>e. face_loop a m i fs = Inl e"
proof (induction a m i fs rule: face_loop.induct)
  case (1 a m i fs)
  show ?case
  proof (cases "i < length (indices m)")
    case False
    then have "i = length (indices m)" using 1(3) by simp
    then show ?thesis using 1(2) 1(5) by simp
  next
    case lt: True
    show ?thesis
    proof (cases "i div 3 < length fs")
      case False
      then show ?thesis using lt by (simp add: face_loop.simps)
    next
      case True
      show ?thesis
      proof (cases "build_face a m i")
        case (Inl e)
        then show ?thesis using lt True by (simp add: face_loop.simps)
      next
        case (Inr f)
        have "i + 3 \<le> length (indices m)" using True 1(2,4) by (simp add: step3)
        moreover have "(i + 3) mod 3 = 0" using 1(2) by simp
        ultimately have "\<exists>e. face_loop a m (i + 3) (fs[i div 3 := f]) = Inl e"
          using 1(1)[OF lt True Inr] 1(4,5) by simp
        then show ?thesis using lt True Inr by (simp add: face_loop.simps)
      qed
    qed
  qed
qed

lemma upload_shape_error: "upload_shape a s d = Inl e \<Longrightarrow> e = OutOfRange"
  by (auto simp: upload_shape_def Let_def split: sum.splits if_splits prod.splits
           dest: face_loop_error)

lemma upload_shapes_error: "upload_shapes a ss d = Inl e \<Longrightarrow> e = OutOfRange"
  by (induction ss arbitrary: d e)
     (auto split: sum.splits prod.splits dest: upload_shape_error)

text \<open>An empty shape keeps the value-initialised null pointer and the device is not
  touched.\<close>

lemma upload_shape_empty:
  "indices (mesh s) = [] \<Longrightarrow>
   upload_shape a s d = Inr (\<lparr>faces = \<lparr>buf_size = 0, buf_data = Null\<rparr>\<rparr>, d)"
  by (simp add: upload_shape_def face_loop.simps)

subsection \<open>Triangle lists\<close>

lemma read_corner_ok:
  assumes "indices_in_pools a s" "i < length (indices (mesh s))"
  shows "\<exists>r. read_corner a (mesh s) i = Inr r"
proof -
  let ?idx = "indices (mesh s) ! i"
  have "readable3 (attrib_vertices a) (vertex_index ?idx)
        \<and> readable3 (attrib_normals a) (normal_index ?idx)
        \<and> readable2 (attrib_texcoords a) (texcoord_index ?idx)"
    using assms by (simp add: indices_in_pools_def list_all_length)
  then show ?thesis using assms(2)
    by (simp add: read_corner_def fetch3_def fetch2_def bindE_def Let_def
                  readable3_def readable2_def)
qed

lemma build_face_ok:
  assumes "indices_in_pools a s" "length (indices (mesh s)) = 3 * q" "j < q"
  shows "\<exists>f. build_face a (mesh s) (3 * j) = Inr f"
proof -
  obtain r0 where r0: "read_corner a (mesh s) (3 * j) = Inr r0"
    using read_corner_ok [OF assms(1), of "3 * j"] assms(2,3) by auto
  obtain r1 where r1: "read_corner a (mesh s) (3 * j + 1) = Inr r1"
    using read_corner_ok [OF assms(1), of "3 * j + 1"] assms(2,3) by auto
  obtain r2 where r2: "read_corner a (mesh s) (3 * j + 2) = Inr r2"
    using read_corner_ok [OF assms(1), of "3 * j + 2"] assms(2,3) by auto
  have "j < length (material_ids (mesh s))"
    using assms by (simp add: indices_in_pools_def)
  then show ?thesis using r0 r1 r2
    by (simp add: build_face_def bindE_def split: prod.splits)
qed

text \<open>On a triangle list the loop makes one pass per triple, pass \<open>j\<close> writes
  \<^verbatim>\<open>faces[j]\<close> from the indices \<open>3 * j\<close>, \<open>3 * j + 1\<close> and \<open>3 * j + 2\<close>, and it stops at the end
  of the index vector.\<close>

lemma face_loop_from:
  assumes "length (indices m) = 3 * q" "length fs = q" "k \<le> q"
    and "\<forall>j. k \<le> j \<and> j < q \<longrightarrow> build_face a m (3 * j) = Inr (g j)"
  shows "face_loop a m (3 * k) fs = Inr (take k fs @ map g [k..<q])"
  using assms(2,3,4)
proof (induction "q - k" arbitrary: k fs)
  case 0
  then have "k = q" by simp
  then show ?case using assms(1) 0 by (simp add: face_loop.simps)
next
  case (Suc n)
  then have lt: "k < q" by simp
  have b: "build_face a m (3 * k) = Inr (g k)" using Suc.prems(3) lt by simp
  have r: "face_loop a m (3 * Suc k) (fs[k := g k])
             = Inr (take (Suc k) (fs[k := g k]) @ map g [Suc k..<q])"
    using Suc.hyps(1) [of "Suc k" "fs[k := g k]"] Suc.hyps(2) Suc.prems lt by simp
  have t: "take (Suc k) (fs[k := g k]) = take k fs @ [g k]"
    using lt Suc.prems(1) by (simp add: take_Suc_conv_app_nth)
  have u: "[k..<q] = k # [Suc k..<q]" using lt by (simp add: upt_conv_Cons)
  have s3: "3 * k + 3 = 3 * Suc k" by simp
  show ?case
    using lt Suc.prems(1) b r assms(1)
    by (subst face_loop.simps) (simp add: t u s3 del: mult_Suc_right)
qed

lemma face_loop_triangles:
  assumes "triangle_list s" "indices_in_pools a s"
  shows "face_loop a (mesh s) 0 (replicate (length (indices (mesh s)) div 3) Face0)
           = Inr (map (\<lambda>j. projr (build_face a (mesh s) (3 * j)))
                      [0..<length (indices (mesh s)) div 3])"
proof -
  define q where "q = length (indices (mesh s)) div 3"
  have n: "length (indices (mesh s)) = 3 * q"
    using assms(1) unfolding triangle_list_def q_def by presburger
  have "\<forall>j. 0 \<le> j \<and> j < q \<longrightarrow>
          build_face a (mesh s) (3 * j) = Inr (projr (build_face a (mesh s) (3 * j)))"
    using build_face_ok [OF assms(2) n] by fastforce
  from face_loop_from [OF n _ _ this, of "replicate q Face0"]
  show ?thesis by (simp add: q_def)
qed

lemma upload_shape_triangles:
  assumes "triangle_list s" "indices_in_pools a s"
  shows "upload_shape a s d =
           (if length (indices (mesh s)) div 3 = 0 then Inr (no_faces, d)
            else (case cudaMalloc (length (indices (mesh s)) div 3) d of (p, d1) \<Rightarrow>
                    Inr (\<lparr>faces = \<lparr>buf_size = length (indices (mesh s)) div 3, buf_data = p\<rparr>\<rparr>,
                         cudaMemcpyH2D p
                           (Faces (map (\<lambda>j. projr (build_face a (mesh s) (3 * j)))
                                       [0..<length (indices (mesh s)) div 3])) d1)))"
  by (simp add: upload_shape_def Let_def face_loop_triangles [OF assms] no_faces_def)



lemma upload_shapes_triangles:
  "list_all (\<lambda>s. triangle_list s \<and> indices_in_pools a s) ss \<Longrightarrow>
   \<exists>gms d'. upload_shapes a ss d = Inr (gms, d')"
proof (induction ss arbitrary: d)
  case Nil
  then show ?case by simp
next
  case (Cons x xs)
  then have x: "triangle_list x" "indices_in_pools a x" by simp_all
  obtain gm d1 where u: "upload_shape a x d = Inr (gm, d1)"
    using upload_shape_triangles [OF x, of d]
    by (cases "cudaMalloc (length (indices (mesh x)) div 3) d") (auto split: if_splits)
  obtain gms d2 where "upload_shapes a xs d1 = Inr (gms, d2)"
    using Cons.IH [of d1] Cons.prems by auto
  then show ?case using u by simp
qed

text \<open>A shape that is not a triangle list makes the loop run one pass further than the
  face vector has entries.\<close>

lemma upload_shape_ragged:
  assumes "\<not> triangle_list s"
  shows "upload_shape a s d = Inl OutOfRange"
proof -
  obtain e where e:
    "face_loop a (mesh s) 0 (replicate (length (indices (mesh s)) div 3) Face0) = Inl e"
    using face_loop_ragged
            [of 0 "mesh s" "replicate (length (indices (mesh s)) div 3) Face0" a] assms
    by (auto simp: triangle_list_def)
  then have "e = OutOfRange" by (rule face_loop_error)
  with e show ?thesis by (simp add: upload_shape_def Let_def)
qed



subsection \<open>Shapes without faces\<close>

lemma upload_shapes_append:
  "upload_shapes a (pre @ post) d =
     (case upload_shapes a pre d of
        Inl e \<Rightarrow> Inl e
      | Inr (gs, d1) \<Rightarrow>
          (case upload_shapes a post d1 of
             Inl e \<Rightarrow> Inl e
           | Inr (hs, d2) \<Rightarrow> Inr (gs @ hs, d2)))"
  by (induction pre arbitrary: d) (auto split: sum.splits prod.splits)

lemma upload_shapes_length:
  "upload_shapes a ss d = Inr (gms, d') \<Longrightarrow> length gms = length ss"
  by (induction ss arbitrary: d gms) (auto split: sum.splits prod.splits)

lemma map_of_overwritten:
  "([a \<mapsto> b] ++ map_of (map (\<lambda>(k, c). if k = a then (k, b) else (k, c)) xs)) a = Some b"
  by (induction xs) (auto simp: map_add_def)

lemma peek_after_copy:
  "n \<noteq> 0 \<Longrightarrow> cudaMalloc n d = (p, d1) \<Longrightarrow> peek_dev (cudaMemcpyH2D p b d1) p = Some b"
  by (auto simp: cudaMalloc_def cudaMemcpyH2D_def peek_dev_def emit_def map_of_overwritten)

lemma upload_shape_no_faces:
  assumes "triangle_list s" "length (indices (mesh s)) div 3 = 0"
  shows "upload_shape a s d = Inr (no_faces, d)"
proof -
  have "length (indices (mesh s)) = 0"
    using assms unfolding triangle_list_def by presburger
  then show ?thesis by (simp add: upload_shape_def face_loop.simps no_faces_def)
qed

lemma upload_shapes_no_faces:
  assumes "triangle_list s" "length (indices (mesh s)) div 3 = 0"
  shows "upload_shapes a (pre @ s # post) d =
           (case upload_shapes a pre d of
              Inl e \<Rightarrow> Inl e
            | Inr (gs, d1) \<Rightarrow>
                (case upload_shapes a post d1 of
                   Inl e \<Rightarrow> Inl e
                 | Inr (hs, d2) \<Rightarrow> Inr (gs @ no_faces # hs, d2)))"
  by (simp add: upload_shapes_append upload_shape_no_faces [OF assms]
           split: sum.splits prod.splits)

lemma upload_meshes_no_faces:
  assumes "triangle_list s" "length (indices (mesh s)) div 3 = 0"
  shows "case upload_meshes (pre @ s # post) a d of
           Inl e \<Rightarrow> True
         | Inr (mb, d') \<Rightarrow>
             buf_size mb = length (pre @ s # post)
             \<and> (\<exists>gms. peek_dev d' (buf_data mb) = Some (Meshes gms)
                      \<and> length gms = length (pre @ s # post)
                      \<and> gms ! length pre = no_faces)"
proof (cases "upload_shapes a pre d")
  case (Inl e)
  then show ?thesis
    by (simp add: upload_meshes_def upload_shapes_no_faces [OF assms])
next
  case (Inr r)
  obtain gs d1 where r: "r = (gs, d1)" by (cases r)
  have lg: "length gs = length pre" using Inr r by (simp add: upload_shapes_length)
  show ?thesis
  proof (cases "upload_shapes a post d1")
    case (Inl e)
    then show ?thesis using Inr r
      by (simp add: upload_meshes_def upload_shapes_no_faces [OF assms])
  next
    case hs: (Inr r2)
    obtain hs d2 where r2: "r2 = (hs, d2)" by (cases r2)
    have lh: "length hs = length post" using hs r2 by (simp add: upload_shapes_length)
    obtain p d3 where m: "cudaMalloc (Suc (length pre + length post)) d2 = (p, d3)"
      by (cases "cudaMalloc (Suc (length pre + length post)) d2")
    have u: "upload_meshes (pre @ s # post) a d
               = Inr (\<lparr>buf_size = Suc (length pre + length post), buf_data = p\<rparr>,
                      cudaMemcpyH2D p (Meshes (gs @ no_faces # hs)) d3)"
      using Inr r hs r2 m
      by (simp add: upload_meshes_def upload_shapes_no_faces [OF assms])
    have "peek_dev (cudaMemcpyH2D p (Meshes (gs @ no_faces # hs)) d3) p
            = Some (Meshes (gs @ no_faces # hs))"
      by (rule peek_after_copy [OF _ m]) simp
    then show ?thesis using u lg lh by (simp add: nth_append)
  qed
qed

lemma no_faces_in_pools:
  "triangle_list s \<Longrightarrow> length (indices (mesh s)) div 3 = 0 \<Longrightarrow> indices_in_pools a s"
proof -
  assume "triangle_list s" "length (indices (mesh s)) div 3 = 0"
  then have "length (indices (mesh s)) = 0" unfolding triangle_list_def by presburger
  then show ?thesis by (simp add: indices_in_pools_def)
qed

lemma upload_meshes_triangles:
  assumes "list_all (\<lambda>s. triangle_list s \<and> indices_in_pools a s) ss"
  shows "\<exists>mb d'. upload_meshes ss a d = Inr (mb, d')"
proof -
  obtain gms d1 where "upload_shapes a ss d = Inr (gms, d1)"
    using upload_shapes_triangles [OF assms, of d] by auto
  then show ?thesis
    by (cases "cudaMalloc (length ss) d1") (simp add: upload_meshes_def)
qed

text \<open>
  Claim C7. For every input shape whose index list yields zero faces, \<^verbatim>\<open>upload_meshes\<close>
  produces a mesh with a face buffer of size 0 and a null data pointer, allocates and
  copies nothing for that shape, and the device mesh array has one entry per input shape.

  The theorem, for a triangle list \<open>s\<close> with zero faces, between any shapes \<open>pre\<close> and
  \<open>post\<close>: the body of the loop returns the entry \<open>no_faces\<close> and the device it was given;
  in the loop over all shapes the device goes from the shapes before \<open>s\<close> to the shapes
  after it unchanged, and the entry of \<open>s\<close> sits at its position; whenever
  \<^verbatim>\<open>upload_meshes\<close> returns, the device mesh array has one entry per shape, the one of \<open>s\<close>
  being \<open>no_faces\<close>; and it does return when the other shapes are triangle lists with
  their indices in the pools.
\<close>

theorem zero_face_shape_uploads_nothing:
  assumes "triangle_list s" and "length (indices (mesh s)) div 3 = 0"
  shows "upload_shape a s d0 = Inr (no_faces, d0)
     \<and> upload_shapes a (pre @ s # post) d =
         (case upload_shapes a pre d of
            Inl e \<Rightarrow> Inl e
          | Inr (gs, d1) \<Rightarrow>
              (case upload_shapes a post d1 of
                 Inl e \<Rightarrow> Inl e
               | Inr (hs, d2) \<Rightarrow> Inr (gs @ no_faces # hs, d2)))
     \<and> (case upload_meshes (pre @ s # post) a d of
           Inl e \<Rightarrow> True
         | Inr (mb, d') \<Rightarrow>
             buf_size mb = length (pre @ s # post)
             \<and> (\<exists>gms. peek_dev d' (buf_data mb) = Some (Meshes gms)
                      \<and> length gms = length (pre @ s # post)
                      \<and> gms ! length pre = no_faces))
     \<and> (list_all (\<lambda>s. triangle_list s \<and> indices_in_pools a s) (pre @ post)
          \<longrightarrow> (\<exists>mb d'. upload_meshes (pre @ s # post) a d = Inr (mb, d')))"
proof (intro conjI impI)
  show "upload_shape a s d0 = Inr (no_faces, d0)"
    by (rule upload_shape_no_faces [OF assms])
  show "upload_shapes a (pre @ s # post) d =
         (case upload_shapes a pre d of
            Inl e \<Rightarrow> Inl e
          | Inr (gs, d1) \<Rightarrow>
              (case upload_shapes a post d1 of
                 Inl e \<Rightarrow> Inl e
               | Inr (hs, d2) \<Rightarrow> Inr (gs @ no_faces # hs, d2)))"
    by (rule upload_shapes_no_faces [OF assms])
  show "case upload_meshes (pre @ s # post) a d of
           Inl e \<Rightarrow> True
         | Inr (mb, d') \<Rightarrow>
             buf_size mb = length (pre @ s # post)
             \<and> (\<exists>gms. peek_dev d' (buf_data mb) = Some (Meshes gms)
                      \<and> length gms = length (pre @ s # post)
                      \<and> gms ! length pre = no_faces)"
    by (rule upload_meshes_no_faces [OF assms])
next
  assume "list_all (\<lambda>s. triangle_list s \<and> indices_in_pools a s) (pre @ post)"
  then have "list_all (\<lambda>s. triangle_list s \<and> indices_in_pools a s) (pre @ s # post)"
    using assms no_faces_in_pools [OF assms, of a] by simp
  then show "\<exists>mb d'. upload_meshes (pre @ s # post) a d = Inr (mb, d')"
    by (rule upload_meshes_triangles)
qed

text \<open>At an empty shape between two triangles: two face buffers and the mesh array are
  allocated, and the middle entry of the array is the empty one.\<close>

theorem zero_face_shape_uploads_nothing_witness:
  "triangle_list (shape_of []) \<and> length (indices (mesh (shape_of []))) div 3 = 0
   \<and> upload_shape tri_attrib (shape_of []) dev0 = Inr (no_faces, dev0)
   \<and> (case upload_meshes ([tri_shape] @ shape_of [] # [tri_shape]) tri_attrib dev0 of
         Inl e \<Rightarrow> False
       | Inr (mb, d') \<Rightarrow>
           buf_size mb = 3 \<and> buf_data mb = Dev 3 \<and> map fst (allocs d') = [1, 2, 3]
           \<and> peek_dev d' (Dev 3)
               = Some (Meshes [\<lparr>faces = \<lparr>buf_size = 1, buf_data = Dev 1\<rparr>\<rparr>, no_faces,
                               \<lparr>faces = \<lparr>buf_size = 1, buf_data = Dev 2\<rparr>\<rparr>]))"
  using zero_face_shape_uploads_nothing
          [where s = "shape_of []" and a = tri_attrib and ?d0.0 = dev0 and d = dev0
             and pre = "[tri_shape]" and post = "[tri_shape]"]
  by (simp add: model_defs demo_defs triangle_list_def no_faces_def)

section \<open>The scene text parser\<close>

text \<open>The token a line is dispatched on is the one it yields itself or, for a line of
  whitespace only, the one left over from the line before.\<close>

lemma get_token_cases:
  "fst (get_token old (stringstream line)) = old
   \<or> fst (get_token old (stringstream line)) = first_token line"
  by (simp add: get_token_def stringstream_def first_token_def Let_def)

lemma parse_line_dir_no_camera:
  assumes "token st \<noteq> ''camera''" "first_token line \<noteq> ''camera''"
  shows "token (parse_line_dir E line st) \<noteq> ''camera'' \<and> cam (parse_line_dir E line st) = cam st"
proof (cases "line = [] \<or> hd line = CHR ''#''")
  case True
  then show ?thesis using assms by (simp add: parse_line_dir_def)
next
  case False
  obtain tok iss where g: "get_token (token st) (stringstream line) = (tok, iss)"
    by (cases "get_token (token st) (stringstream line)")
  have "tok \<noteq> ''camera''"
    using get_token_cases [of "token st" line] g assms by auto
  then show ?thesis using False g
    by (auto simp: parse_line_dir_def say_def split: sum.splits)
qed

lemma parse_lines_dir_no_camera:
  "token st \<noteq> ''camera'' \<Longrightarrow> list_all (\<lambda>l. first_token l \<noteq> ''camera'') ls \<Longrightarrow>
   cam (parse_lines_dir E ls st) = cam st"
proof (induction ls arbitrary: st)
  case Nil
  then show ?case by simp
next
  case (Cons l ls)
  have "token (parse_line_dir E l st) \<noteq> ''camera'' \<and> cam (parse_line_dir E l st) = cam st"
    using Cons.prems by (intro parse_line_dir_no_camera) simp_all
  then show ?case using Cons.IH [of "parse_line_dir E l st"] Cons.prems by simp
qed

lemma parse_line_top_no_camera:
  assumes "token st \<noteq> ''camera''" "first_token line \<noteq> ''camera''"
      and "parse_line_top E line st = Inr st1"
  shows "token st1 \<noteq> ''camera'' \<and> cam st1 = cam st"
proof (cases "line = [] \<or> hd line = CHR ''#''")
  case True
  then show ?thesis using assms by (auto simp: parse_line_top_def)
next
  case False
  obtain tok iss where g: "get_token (token st) (stringstream line) = (tok, iss)"
    by (cases "get_token (token st) (stringstream line)")
  have "tok \<noteq> ''camera''"
    using get_token_cases [of "token st" line] g assms by auto
  then show ?thesis using False g assms(3)
    by (auto simp: parse_line_top_def split: sum.splits if_splits)
qed

lemma parse_lines_top_no_camera:
  "token st \<noteq> ''camera'' \<Longrightarrow> list_all (\<lambda>l. first_token l \<noteq> ''camera'') ls \<Longrightarrow>
   parse_lines_top E ls st = Inr st1 \<Longrightarrow> cam st1 = cam st"
proof (induction ls arbitrary: st)
  case Nil
  then show ?case by simp
next
  case (Cons l ls)
  from Cons.prems(3) obtain st2 where s2: "parse_line_top E l st = Inr st2"
    and rest: "parse_lines_top E ls st2 = Inr st1"
    by (auto split: sum.splits)
  have "token st2 \<noteq> ''camera'' \<and> cam st2 = cam st"
    using Cons.prems(1,2) s2 by (intro parse_line_top_no_camera [of st l E]) simp_all
  then show ?case using Cons.IH [of st2] Cons.prems(2) rest by simp
qed

lemma default_camera_fields:
  "default_camera c = c\<lparr>cam_u := (1, 0, 0), cam_v := (0, - 1, 0), fov_x := pi / 2, dir := (0, 0, - 1)\<rparr>"
  by (simp add: default_camera_def cross_def)

text \<open>
  Claim C5. The claim: for every scene file without a camera line, the camera
  \<^verbatim>\<open>parse_scene\<close> produces has right basis u = (1, 0, 0), down basis v = (0, -1, 0), a
  horizontal field of view of 90 degrees in radians, a forward direction equal to the
  cross product down x right, and a position that is left unwritten.

  The code computes \<^verbatim>\<open>cam.dir = cross(cam.u, cam.v)\<close>, which is right x down, the vector
  (0, 0, -1); down x right is its negation. As amended: for every scene file that opens
  and none of whose lines yields the token \<^verbatim>\<open>camera\<close>, the camera of scene/scene.cpp's
  \<^verbatim>\<open>parse_scene\<close> is the camera passed in with u = (1, 0, 0), v = (0, -1, 0),
  fov_x = 90 * pi / 180 and dir = cross u v = (0, 0, -1), every other field (the position
  among them) as it was; scene.cpp's \<^verbatim>\<open>parse_scene\<close> returns the same camera whenever it
  returns without throwing.
\<close>

theorem default_camera_without_camera_line:
  assumes "file_lines E filename = Some ls"
      and "list_all (\<lambda>l. first_token l \<noteq> ''camera'') ls"
  shows "out_cam (parse_scene_dir E filename sd c objf cubemapf d)
           = c\<lparr>cam_u := (1, 0, 0), cam_v := (0, - 1, 0), fov_x := (90 * pi) / 180,
               dir := cross (1, 0, 0) (0, - 1, 0)\<rparr>
         \<and> (case parse_scene_top E filename sd c objf cubemapf d of
               Inl e \<Rightarrow> True
             | Inr r \<Rightarrow> out_cam r = c\<lparr>cam_u := (1, 0, 0), cam_v := (0, - 1, 0),
                                      fov_x := (90 * pi) / 180,
                                      dir := cross (1, 0, 0) (0, - 1, 0)\<rparr>)
         \<and> cross (1, 0, 0) (0, - 1, 0) = (0, 0, - 1)"
proof -
  have t: "token (start_pstate c objf cubemapf) \<noteq> ''camera''"
    by (simp add: start_pstate_def)
  have c0: "cam (start_pstate c objf cubemapf) = default_camera c"
    by (simp add: start_pstate_def)
  have a: "cam (parse_lines_dir E ls (start_pstate c objf cubemapf)) = default_camera c"
    using parse_lines_dir_no_camera [OF t assms(2), of E] c0 by simp
  have b: "parse_lines_top E ls (start_pstate c objf cubemapf) = Inr st \<Longrightarrow> cam st = default_camera c" for st
    using parse_lines_top_no_camera [OF t assms(2), of E st] c0 by simp
  have 1: "out_cam (parse_scene_dir E filename sd c objf cubemapf d) = default_camera c"
    using assms(1) a by (simp add: parse_scene_dir_def Let_def split: prod.splits)
  have 2: "parse_scene_top E filename sd c objf cubemapf d = Inr r \<Longrightarrow> out_cam r = default_camera c" for r
    using assms(1) b by (auto simp: parse_scene_top_def split: sum.splits if_splits prod.splits)
  show ?thesis using 1 2
    by (auto simp: default_camera_def cross_def split: sum.splits)
qed

text \<open>At the scene file \<^verbatim>\<open>assets/a.scene\<close> (a light and a model, no camera).\<close>

theorem default_camera_without_camera_line_witness:
  "file_lines demo_env ''assets/a.scene'' = Some [''p_light 0 4 0 1 1 1 5 2'', ''scene a.obj'']
   \<and> list_all (\<lambda>l. first_token l \<noteq> ''camera'') [''p_light 0 4 0 1 1 1 5 2'', ''scene a.obj'']
   \<and> out_cam (parse_scene_dir demo_env ''assets/a.scene'' junk_scene junk_cam [] [] dev0)
       = \<lparr>res = (7, 7), position = (7, 7, 7), dir = (0, 0, - 1), cam_u = (1, 0, 0),
          cam_v = (0, - 1, 0), fov_x = pi / 2, focus_dist = 7, aperture = 7, speed = 7\<rparr>"
  using default_camera_without_camera_line
          [where E = demo_env and filename = "''assets/a.scene''"
             and ls = "[''p_light 0 4 0 1 1 1 5 2'', ''scene a.obj'']"
             and sd = junk_scene and c = junk_cam and objf = "[]" and cubemapf = "[]"
             and d = dev0]
  by (simp add: demo_env_def junk_cam_def first_token_def get_token_def stringstream_def
                isspace_def cross_def)

text \<open>The claim as stated fails at the same file: the direction is not the cross
  product of the down vector with the right vector.\<close>

theorem default_camera_dir_is_not_down_cross_right:
  "dir (out_cam (parse_scene_dir demo_env ''assets/a.scene'' junk_scene junk_cam [] [] dev0))
     \<noteq> cross (cam_v (out_cam (parse_scene_dir demo_env ''assets/a.scene'' junk_scene junk_cam
                              [] [] dev0)))
             (cam_u (out_cam (parse_scene_dir demo_env ''assets/a.scene'' junk_scene junk_cam
                              [] [] dev0)))"
  by (simp add: model_defs demo_defs)

subsection \<open>Lines with the keyword p\_light\<close>

lemma p_light_fields_nothing_left: "peek_eof iss \<Longrightarrow> p_light_fields E iss = Inl LVec"
  by (simp add: p_light_fields_def parse_double3_def)

text \<open>The radius is the last extraction and nothing looks at the stream after it: a
  line whose radius does not convert keeps its light, with the radius the failed
  extraction stored.\<close>

lemma unchecked_radius_is_kept:
  "light_vec (parse_line_dir demo_env ''p_light 0 4 0 1 1 1 5 x'' (start_pstate junk_cam [] []))
     = [\<lparr>color = (1, 1, 1), vec = (0, 4, 0), emission = 5, radius = 0\<rparr>]
   \<and> cerr (parse_line_dir demo_env ''p_light 0 4 0 1 1 1 5 x'' (start_pstate junk_cam [] []))
     = []"
  by (simp add: model_defs demo_defs)

text \<open>
  Claim C4. The claim: for every line whose keyword is \<^verbatim>\<open>p_light\<close> and whose remaining
  fields fail to parse, the parser emits a diagnostic, drops the directive and continues
  with the following lines; a malformed directive never aborts the scene load.

  That is the parser of scene/scene.cpp; the parser of scene.cpp throws a
  \<^verbatim>\<open>std::runtime_error\<close> at each of the same four checks, and nothing catches it.
  As amended: in scene/scene.cpp, for every line that is dispatched on the token
  \<^verbatim>\<open>p_light\<close> and on which one of the four checks of the field parser fails (the position
  triple, the colour triple, the stream at its end before the emission, or before the
  radius), the parser appends the diagnostic of that check to \<^verbatim>\<open>std::cerr\<close>, leaves the
  light list, the camera and the file names as they were, and parses the following lines
  from that state. The function returns a value for every file, so no line aborts it.
\<close>

theorem malformed_p_light_is_skipped:
  assumes "line \<noteq> []" and "hd line \<noteq> CHR ''#''"
      and "get_token (token st) (stringstream line) = (''p_light'', iss)"
      and "p_light_fields E iss = Inl f"
  shows "parse_line_dir E line st
           = st\<lparr>token := ''p_light'', cerr := cerr st @ [light_msg_dir f]\<rparr>
         \<and> parse_lines_dir E (line # rest) st
           = parse_lines_dir E rest
               (st\<lparr>token := ''p_light'', cerr := cerr st @ [light_msg_dir f]\<rparr>)"
  using assms by (simp add: parse_line_dir_def say_def)

text \<open>At the file \<^verbatim>\<open>assets/bad.scene\<close>, whose first line has a position of two numbers:
  the line is reported, the light of the second line and the model of the third are
  read.\<close>

theorem malformed_p_light_is_skipped_witness:
  "''p_light 1 2'' \<noteq> [] \<and> hd ''p_light 1 2'' \<noteq> CHR ''#''
   \<and> get_token (token (start_pstate junk_cam [] [])) (stringstream ''p_light 1 2'')
       = (''p_light'', \<lparr>unread = '' 1 2'', failbit = False\<rparr>)
   \<and> p_light_fields demo_env \<lparr>unread = '' 1 2'', failbit = False\<rparr> = Inl LVec
   \<and> light_vec (parse_lines_dir demo_env
         [''p_light 1 2'', ''p_light 0 4 0 1 1 1 5 2'', ''scene a.obj'']
         (start_pstate junk_cam [] []))
       = [\<lparr>color = (1, 1, 1), vec = (0, 4, 0), emission = 5, radius = 2\<rparr>]
   \<and> cerr (parse_lines_dir demo_env
         [''p_light 1 2'', ''p_light 0 4 0 1 1 1 5 2'', ''scene a.obj'']
         (start_pstate junk_cam [] []))
       = [''parse_scene(): error parsing p_light pos'']
   \<and> objfile (parse_lines_dir demo_env
         [''p_light 1 2'', ''p_light 0 4 0 1 1 1 5 2'', ''scene a.obj'']
         (start_pstate junk_cam [] []))
       = ''a.obj''"
  using malformed_p_light_is_skipped
          [where line = "''p_light 1 2''" and st = "start_pstate junk_cam [] []"
             and iss = "\<lparr>unread = '' 1 2'', failbit = False\<rparr>" and E = demo_env and f = LVec
             and rest = "[''p_light 0 4 0 1 1 1 5 2'', ''scene a.obj'']"]
  by (simp add: model_defs demo_defs)

text \<open>The claim as stated fails for scene.cpp at the same file: the first line ends
  \<^verbatim>\<open>parse_scene\<close> and \<^verbatim>\<open>Scene::upload\<close> with the exception.\<close>

theorem malformed_p_light_throws_in_scene_cpp:
  "file_lines demo_env ''assets/bad.scene''
     = Some [''p_light 1 2'', ''p_light 0 4 0 1 1 1 5 2'', ''scene a.obj'']
   \<and> parse_scene_top demo_env ''assets/bad.scene'' junk_scene junk_cam [] [] dev0
       = Inl (RuntimeError ''parse_scene(): error parsing p_light vector.'')
   \<and> upload_top demo_env (Scene_top demo_env ''assets/bad.scene'') dev0
       = Inl (RuntimeError ''parse_scene(): error parsing p_light vector.'')"
  by (simp add: model_defs demo_defs)

section \<open>The guard of Scene::upload\<close>

text \<open>
  Claim C3. The claim: a second \<^verbatim>\<open>upload()\<close> on a scene that is already Ready or already
  Failed is a no-op: no parsing, no model load, no device allocation, and the state of
  the scene unchanged.

  The guard of both files is \<^verbatim>\<open>if (_uploaded) return;\<close>. A Ready scene has
  \<^verbatim>\<open>_uploaded\<close> set; a Failed scene has not (a failed load returns before
  \<^verbatim>\<open>_uploaded = true\<close>), and the class has no other flag that tells it from a scene never
  uploaded. As amended: \<^verbatim>\<open>upload()\<close> on a scene whose \<^verbatim>\<open>_uploaded\<close> flag is set (a Ready
  scene) returns with the scene, the caller's camera and the device, trace included,
  exactly as they were; on a Failed scene it runs the whole sequence again.
\<close>

theorem upload_on_uploaded_scene_is_noop:
  "uploaded sc \<Longrightarrow>
   upload_dir E camera_ptr sc d = Inr (camera_ptr, sc, d) \<and> upload_top E sc d = Inr (sc, d)"
  by (simp add: upload_dir_def upload_top_def)

lemma ready_dir_value:
  "upload_dir demo_env None (Scene_dir demo_env ''assets/a.scene'') dev0 = Inr ready_dir
   \<and> uploaded (fst (snd ready_dir)) \<and> ready (fst (snd ready_dir))
   \<and> map fst (allocs (snd (snd ready_dir))) = [1, 2, 3, 4, 5]"
  by (simp add: ready_dir_def model_defs demo_defs)

text \<open>At the scene that one upload of \<^verbatim>\<open>assets/a.scene\<close> leaves Ready.\<close>

theorem upload_on_uploaded_scene_is_noop_witness:
  "upload_dir demo_env None (Scene_dir demo_env ''assets/a.scene'') dev0 = Inr ready_dir
   \<and> uploaded (fst (snd ready_dir)) \<and> ready (fst (snd ready_dir))
   \<and> upload_dir demo_env (Some junk_cam) (fst (snd ready_dir)) (snd (snd ready_dir))
       = Inr (Some junk_cam, fst (snd ready_dir), snd (snd ready_dir))
   \<and> upload_top demo_env (fst (snd ready_dir)) (snd (snd ready_dir))
       = Inr (fst (snd ready_dir), snd (snd ready_dir))"
  using upload_on_uploaded_scene_is_noop
          [where sc = "fst (snd ready_dir)" and E = demo_env and camera_ptr = "Some junk_cam"
             and d = "snd (snd ready_dir)"]
        ready_dir_value
  by simp

text \<open>The claim as stated fails on a Failed scene: \<^verbatim>\<open>assets/lost.scene\<close> has a light and
  names a model that does not load. The first upload leaves the scene not ready and not
  uploaded, with the light buffer allocated; the second upload parses again and allocates
  a second light buffer.\<close>

theorem upload_on_failed_scene_runs_again:
  "upload_dir demo_env None (Scene_dir demo_env ''assets/lost.scene'') dev0 = Inr failed_dir
   \<and> \<not> ready (fst (snd failed_dir)) \<and> \<not> uploaded (fst (snd failed_dir))
   \<and> map fst (allocs (snd (snd failed_dir))) = [1]
   \<and> upload_dir demo_env None (fst (snd failed_dir)) (snd (snd failed_dir)) \<noteq> Inr failed_dir
   \<and> map fst (allocs (snd (snd (projr
         (upload_dir demo_env None (fst (snd failed_dir)) (snd (snd failed_dir))))))) = [1, 2]"
  by (simp add: failed_dir_def model_defs demo_defs)

section \<open>The upload sequence of scene/scene.cpp\<close>

subsection \<open>The camera write does not influence the device work\<close>

lemma same_emit: "same_device d d' \<Longrightarrow> same_device (emit e d) (emit e d')"
  by (simp add: same_device_def emit_def)

lemma same_emit_CameraOut: "same_device d (emit CameraOut d)"
  by (simp add: same_device_def emit_def)

lemma same_cudaMalloc:
  "same_device d d' \<Longrightarrow>
   fst (cudaMalloc n d) = fst (cudaMalloc n d') \<and> same_device (snd (cudaMalloc n d)) (snd (cudaMalloc n d'))"
  by (simp add: same_device_def cudaMalloc_def emit_def)

lemma same_cudaMemcpyH2D:
  "same_device d d' \<Longrightarrow> same_device (cudaMemcpyH2D p b d) (cudaMemcpyH2D p b d')"
  by (cases p) (simp_all add: same_device_def cudaMemcpyH2D_def emit_def)

lemma same_upload_shape:
  assumes "same_device d d'"
  shows "rel_sum (=) (rel_prod (=) same_device) (upload_shape a s d) (upload_shape a s d')"
proof -
  let ?n = "length (indices (mesh s)) div 3"
  show ?thesis
  proof (cases "face_loop a (mesh s) 0 (replicate ?n Face0)")
    case (Inl e)
    then show ?thesis by (simp add: upload_shape_def Let_def)
  next
    case (Inr fs)
    show ?thesis
    proof (cases "length fs = 0")
      case True
      then show ?thesis using Inr assms by (simp add: upload_shape_def Let_def)
    next
      case False
      obtain p d1 where m: "cudaMalloc ?n d = (p, d1)" by (cases "cudaMalloc ?n d")
      obtain p' d1' where m': "cudaMalloc ?n d' = (p', d1')" by (cases "cudaMalloc ?n d'")
      have "p = p'" "same_device d1 d1'"
        using same_cudaMalloc [OF assms, of ?n] m m' by simp_all
      then show ?thesis
        using Inr False m m' by (simp add: upload_shape_def Let_def same_cudaMemcpyH2D)
    qed
  qed
qed

lemma same_upload_shapes:
  "same_device d d' \<Longrightarrow>
   rel_sum (=) (rel_prod (=) same_device) (upload_shapes a ss d) (upload_shapes a ss d')"
proof (induction ss arbitrary: d d')
  case Nil
  then show ?case by simp
next
  case (Cons x xs)
  have h: "rel_sum (=) (rel_prod (=) same_device) (upload_shape a x d) (upload_shape a x d')"
    by (rule same_upload_shape [OF Cons.prems])
  show ?case
  proof (cases "upload_shape a x d")
    case (Inl e)
    then show ?thesis using h by (cases "upload_shape a x d'") simp_all
  next
    case (Inr r)
    then obtain r' where r': "upload_shape a x d' = Inr r'"
      using h by (cases "upload_shape a x d'") simp_all
    obtain gm d1 where r: "r = (gm, d1)" by (cases r)
    obtain gm' d1' where r2: "r' = (gm', d1')" by (cases r')
    have eq: "gm = gm'" "same_device d1 d1'" using h Inr r' r r2 by simp_all
    have ih: "rel_sum (=) (rel_prod (=) same_device) (upload_shapes a xs d1) (upload_shapes a xs d1')"
      by (rule Cons.IH [OF eq(2)])
    show ?thesis
    proof (cases "upload_shapes a xs d1")
      case (Inl e)
      then show ?thesis using ih Inr r' r r2
        by (cases "upload_shapes a xs d1'") simp_all
    next
      case (Inr q)
      then obtain q' where q': "upload_shapes a xs d1' = Inr q'"
        using ih by (cases "upload_shapes a xs d1'") simp_all
      show ?thesis using ih Inr q' \<open>upload_shape a x d = Inr r\<close> r' r r2 eq
        by (cases q; cases q') simp
    qed
  qed
qed

lemma same_upload_meshes:
  assumes "same_device d d'"
  shows "rel_sum (=) (rel_prod (=) same_device) (upload_meshes ss a d) (upload_meshes ss a d')"
proof -
  have h: "rel_sum (=) (rel_prod (=) same_device) (upload_shapes a ss d) (upload_shapes a ss d')"
    by (rule same_upload_shapes [OF assms])
  show ?thesis
  proof (cases "upload_shapes a ss d")
    case (Inl e)
    then show ?thesis using h by (cases "upload_shapes a ss d'") (simp_all add: upload_meshes_def)
  next
    case (Inr r)
    then obtain r' where r': "upload_shapes a ss d' = Inr r'"
      using h by (cases "upload_shapes a ss d'") simp_all
    obtain gms d1 where r: "r = (gms, d1)" by (cases r)
    obtain gms' d1' where r2: "r' = (gms', d1')" by (cases r')
    have eq: "gms = gms'" "same_device d1 d1'" using h Inr r' r r2 by simp_all
    obtain p d2 where m: "cudaMalloc (length ss) d1 = (p, d2)" by (cases "cudaMalloc (length ss) d1")
    obtain p' d2' where m': "cudaMalloc (length ss) d1' = (p', d2')" by (cases "cudaMalloc (length ss) d1'")
    have "p = p'" "same_device d2 d2'"
      using same_cudaMalloc [OF eq(2), of "length ss"] m m' by simp_all
    then show ?thesis using Inr r' r r2 eq m m'
      by (simp add: upload_meshes_def same_cudaMemcpyH2D)
  qed
qed

lemma same_upload_materials_dir:
  assumes "same_device d d'"
  shows "fst (upload_materials_dir E ms sd b d) = fst (upload_materials_dir E ms sd b d')
         \<and> same_device (snd (upload_materials_dir E ms sd b d)) (snd (upload_materials_dir E ms sd b d'))"
proof -
  let ?n = "length (load_materials E ms b)"
  obtain p d1 where m: "cudaMalloc ?n d = (p, d1)" by (cases "cudaMalloc ?n d")
  obtain p' d1' where m': "cudaMalloc ?n d' = (p', d1')" by (cases "cudaMalloc ?n d'")
  have "p = p'" "same_device d1 d1'"
    using same_cudaMalloc [OF assms, of ?n] m m' by simp_all
  then show ?thesis using m m' assms
    by (simp add: upload_materials_dir_def Let_def same_cudaMemcpyH2D)
qed

lemma same_upload_gpu_dir:
  assumes "same_device d d'"
  shows "rel_sum (=) (rel_prod (=) same_device)
           (upload_gpu_dir E ss ms a b sc d) (upload_gpu_dir E ss ms a b sc d')"
proof (cases "scene_data sc")
  case (HObj sd)
  obtain sd1 d1 where u: "upload_materials_dir E ms sd b d = (sd1, d1)"
    by (cases "upload_materials_dir E ms sd b d")
  obtain sd1' d1' where u': "upload_materials_dir E ms sd b d' = (sd1', d1')"
    by (cases "upload_materials_dir E ms sd b d'")
  have eq: "sd1 = sd1'" "same_device d1 d1'"
    using same_upload_materials_dir [OF assms, of E ms sd b] u u' by simp_all
  have h: "rel_sum (=) (rel_prod (=) same_device) (upload_meshes ss a d1) (upload_meshes ss a d1')"
    by (rule same_upload_meshes [OF eq(2)])
  show ?thesis
  proof (cases "upload_meshes ss a d1")
    case (Inl e)
    then show ?thesis using h HObj u u'
      by (cases "upload_meshes ss a d1'") (simp_all add: upload_gpu_dir_def)
  next
    case (Inr r)
    then obtain r' where r': "upload_meshes ss a d1' = Inr r'"
      using h by (cases "upload_meshes ss a d1'") simp_all
    obtain mb d2 where r: "r = (mb, d2)" by (cases r)
    obtain mb' d2' where r2: "r' = (mb', d2')" by (cases r')
    have eq2: "mb = mb'" "same_device d2 d2'" using h Inr r' r r2 by simp_all
    obtain p d3 where m: "cudaMalloc 1 d2 = (p, d3)" by (cases "cudaMalloc 1 d2")
    obtain p' d3' where m': "cudaMalloc 1 d2' = (p', d3')" by (cases "cudaMalloc 1 d2'")
    have "p = p'" "same_device d3 d3'"
      using same_cudaMalloc [OF eq2(2), of 1] m m' by simp_all
    then show ?thesis using HObj u u' eq Inr r' r r2 eq2 m m'
      by (simp add: upload_gpu_dir_def same_cudaMemcpyH2D)
  qed
qed (simp_all add: upload_gpu_dir_def)

lemma upload_dir_null_same_run:
  "rel_sum (=) (\<lambda>(c1, sc1, d1) (c2, sc2, d2). c1 = None \<and> sc1 = sc2 \<and> same_device d1 d2)
     (upload_dir E None sc d) (upload_dir E (Some c) sc d)"
proof (cases "uploaded sc")
  case True
  then show ?thesis by (simp add: upload_dir_def same_device_def)
next
  case False
  define r where "r = parse_scene_dir E (filepath sc) (new_SceneData E) (init_camera sc) [] (cubemap_path sc) d"
  define f where "f = full_obj_path_of (filepath sc) (out_objfile r)"
  define m where "m = mtl_dir_of (filepath sc) (out_objfile r)"
  define sc2 where "sc2 = sc\<lparr>scene_data := HObj (out_scene r), init_camera := out_cam r,
      cubemap_path := out_cubemap r, ready := obj_ok (load_obj E f m), load_error := obj_err (load_obj E f m)\<rparr>"
  have s: "same_device (emit (LoadObj f m) (out_dev r)) (emit (LoadObj f m) (emit CameraOut (out_dev r)))"
    by (rule same_emit [OF same_emit_CameraOut])
  show ?thesis
  proof (cases "obj_ok (load_obj E f m)")
    case nok: False
    then show ?thesis using False s
      by (simp add: upload_dir_def Let_def r_def [symmetric] f_def [symmetric] m_def [symmetric] same_emit)
  next
    case ok: True
    let ?g = "\<lambda>dd. upload_gpu_dir E (obj_shapes (load_obj E f m)) (obj_materials (load_obj E f m))
                 (obj_attrib (load_obj E f m)) m sc2 dd"
    have h: "rel_sum (=) (rel_prod (=) same_device) (?g (emit (LoadObj f m) (out_dev r)))
               (?g (emit (LoadObj f m) (emit CameraOut (out_dev r))))"
      by (rule same_upload_gpu_dir [OF s])
    have n: "upload_dir E None sc d =
               (case ?g (emit (LoadObj f m) (out_dev r)) of Inl e \<Rightarrow> Inl e
                | Inr (sc3, d3) \<Rightarrow> Inr (None, sc3\<lparr>uploaded := True\<rparr>, d3))"
      using False ok
      by (simp add: upload_dir_def Let_def r_def [symmetric] f_def [symmetric] m_def [symmetric] sc2_def)
    have y: "upload_dir E (Some c) sc d =
               (case ?g (emit (LoadObj f m) (emit CameraOut (out_dev r))) of Inl e \<Rightarrow> Inl e
                | Inr (sc3, d3) \<Rightarrow> Inr (Some (out_cam r), sc3\<lparr>uploaded := True\<rparr>, d3))"
      using False ok
      by (simp add: upload_dir_def Let_def r_def [symmetric] f_def [symmetric] m_def [symmetric] sc2_def
               split: sum.splits)
    show ?thesis unfolding n y using h
      by (cases "?g (emit (LoadObj f m) (out_dev r))";
          cases "?g (emit (LoadObj f m) (emit CameraOut (out_dev r)))") auto
  qed
qed

subsection \<open>The device work holds no camera write\<close>

lemma device_work_iff:
  "device_work d d' \<longleftrightarrow> (\<exists>t. trace d' = trace d @ t \<and> CameraOut \<notin> set t)"
proof
  assume "device_work d d'"
  then have "trace d' = trace d @ drop (length (trace d)) (trace d')"
    and "CameraOut \<notin> set (drop (length (trace d)) (trace d'))"
    unfolding device_work_def by (metis append_take_drop_id, simp)
  then show "\<exists>t. trace d' = trace d @ t \<and> CameraOut \<notin> set t" by blast
next
  assume "\<exists>t. trace d' = trace d @ t \<and> CameraOut \<notin> set t"
  then show "device_work d d'" by (auto simp: device_work_def)
qed

lemma device_work_refl: "device_work d d"
  by (simp add: device_work_def)

lemma device_work_trans: "device_work d d1 \<Longrightarrow> device_work d1 d2 \<Longrightarrow> device_work d d2"
  unfolding device_work_iff by auto

lemma device_work_emit: "e \<noteq> CameraOut \<Longrightarrow> device_work d d1 \<Longrightarrow> device_work d (emit e d1)"
  unfolding device_work_iff by (auto simp: emit_def)

lemma device_work_cudaMalloc:
  "device_work d d1 \<Longrightarrow> cudaMalloc n d1 = (p, d2) \<Longrightarrow> device_work d d2"
  unfolding device_work_iff by (auto simp: cudaMalloc_def emit_def split: if_splits)

lemma device_work_cudaMemcpyH2D: "device_work d d1 \<Longrightarrow> device_work d (cudaMemcpyH2D p b d1)"
  unfolding device_work_iff by (cases p) (auto simp: cudaMemcpyH2D_def emit_def)

lemma device_work_upload_shape:
  "device_work d0 d \<Longrightarrow> upload_shape a s d = Inr (gm, d') \<Longrightarrow> device_work d0 d'"
  by (auto simp: upload_shape_def Let_def
           split: sum.splits if_splits prod.splits
           intro: device_work_cudaMemcpyH2D device_work_cudaMalloc)

lemma device_work_upload_shapes:
  "device_work d0 d \<Longrightarrow> upload_shapes a ss d = Inr (gms, d') \<Longrightarrow> device_work d0 d'"
proof (induction ss arbitrary: d gms)
  case Nil
  then show ?case by simp
next
  case (Cons x xs)
  then show ?case
    by (auto split: sum.splits prod.splits dest: device_work_upload_shape)
qed

lemma device_work_upload_meshes:
  "device_work d0 d \<Longrightarrow> upload_meshes ss a d = Inr (mb, d') \<Longrightarrow> device_work d0 d'"
  by (auto simp: upload_meshes_def split: sum.splits prod.splits
           intro: device_work_cudaMemcpyH2D device_work_cudaMalloc
           dest: device_work_upload_shapes)

lemma device_work_upload_materials_dir:
  "device_work d0 d \<Longrightarrow> upload_materials_dir E ms sd b d = (sd', d') \<Longrightarrow> device_work d0 d'"
  by (auto simp: upload_materials_dir_def Let_def split: if_splits prod.splits
           intro: device_work_cudaMemcpyH2D device_work_cudaMalloc)

lemma upload_gpu_dir_Inr:
  assumes "upload_gpu_dir E ss ms a b sc d = Inr (sc', d')" "device_work d0 d"
  shows "device_work d0 d' \<and> ready sc' = ready sc"
proof -
  from assms(1) obtain sd where sd: "scene_data sc = HObj sd"
    by (cases "scene_data sc") (simp_all add: upload_gpu_dir_def)
  obtain sd1 d1 where u: "upload_materials_dir E ms sd b d = (sd1, d1)"
    by (cases "upload_materials_dir E ms sd b d")
  have e1: "device_work d0 d1" by (rule device_work_upload_materials_dir [OF assms(2) u])
  from assms(1) sd u obtain mb d2 where m: "upload_meshes ss a d1 = Inr (mb, d2)"
    by (cases "upload_meshes ss a d1") (auto simp: upload_gpu_dir_def)
  have e2: "device_work d0 d2" by (rule device_work_upload_meshes [OF e1 m])
  obtain p d3 where c: "cudaMalloc 1 d2 = (p, d3)" by (cases "cudaMalloc 1 d2")
  have e3: "device_work d0 d3" by (rule device_work_cudaMalloc [OF e2 c])
  from assms(1) sd u m c
  have "sc' = sc\<lparr>scene_data := HObj (sd1\<lparr>meshes := mb\<rparr>), d_scene_data := p\<rparr>"
    and "d' = cudaMemcpyH2D p (Scene (sd1\<lparr>meshes := mb\<rparr>)) d3"
    by (simp_all add: upload_gpu_dir_def)
  then show ?thesis using e3 by (simp add: device_work_cudaMemcpyH2D)
qed

lemma upload_gpu_dir_error:
  "upload_gpu_dir E ss ms a b sc d = Inl e \<Longrightarrow> scene_data sc = HObj sd \<Longrightarrow> e = OutOfRange"
  by (auto simp: upload_gpu_dir_def upload_meshes_def split: sum.splits prod.splits
           dest: upload_shapes_error)

lemma device_work_cerr:
  "device_work d0 d \<Longrightarrow> device_work d0 (fold (\<lambda>msg. emit (Cerr msg)) msgs d)"
  by (induction msgs arbitrary: d) (simp_all add: device_work_emit)

lemma device_work_upload_lights:
  "device_work d0 d \<Longrightarrow> upload_lights lv sd d = (sd', d') \<Longrightarrow> device_work d0 d'"
  by (auto simp: upload_lights_def split: prod.splits
           intro: device_work_cudaMemcpyH2D device_work_cudaMalloc)

lemma device_work_parse_scene_dir:
  "device_work d (out_dev (parse_scene_dir E filename sd c objf cubemapf d))"
proof (cases "file_lines E filename")
  case None
  then show ?thesis
    by (simp add: parse_scene_dir_def device_work_emit device_work_refl)
next
  case (Some ls)
  let ?st = "parse_lines_dir E ls (start_pstate c objf cubemapf)"
  let ?d1 = "fold (\<lambda>msg. emit (Cerr msg)) (cerr ?st) d"
  have w: "device_work d ?d1" by (rule device_work_cerr [OF device_work_refl])
  show ?thesis
  proof (cases "length (light_vec ?st) = 0")
    case True
    then show ?thesis using Some w by (simp add: parse_scene_dir_def Let_def)
  next
    case False
    obtain sd2 d2 where u: "upload_lights (light_vec ?st) (sd\<lparr>lights := (lights sd)\<lparr>buf_size := 0\<rparr>\<rparr>) ?d1 = (sd2, d2)"
      by (cases "upload_lights (light_vec ?st) (sd\<lparr>lights := (lights sd)\<lparr>buf_size := 0\<rparr>\<rparr>) ?d1")
    have "device_work d d2" by (rule device_work_upload_lights [OF w u])
    then show ?thesis using Some False u by (simp add: parse_scene_dir_def Let_def)
  qed
qed

lemma upload_dir_null_no_camera_write:
  "case upload_dir E None sc d of Inl e \<Rightarrow> True | Inr (c1, sc1, d1) \<Rightarrow> c1 = None \<and> device_work d d1"
proof (cases "uploaded sc")
  case True
  then show ?thesis by (simp add: upload_dir_def device_work_refl)
next
  case False
  define r where "r = parse_scene_dir E (filepath sc) (new_SceneData E) (init_camera sc) [] (cubemap_path sc) d"
  define f where "f = full_obj_path_of (filepath sc) (out_objfile r)"
  define m where "m = mtl_dir_of (filepath sc) (out_objfile r)"
  define d2 where "d2 = emit (LoadObj f m) (out_dev r)"
  define sc2 where "sc2 = sc\<lparr>scene_data := HObj (out_scene r), init_camera := out_cam r,
      cubemap_path := out_cubemap r, ready := obj_ok (load_obj E f m), load_error := obj_err (load_obj E f m)\<rparr>"
  have w2: "device_work d d2"
    unfolding d2_def r_def by (rule device_work_emit [OF _ device_work_parse_scene_dir]) simp
  show ?thesis
  proof (cases "obj_ok (load_obj E f m)")
    case nok: False
    then show ?thesis using False w2
      by (simp add: upload_dir_def Let_def r_def [symmetric] f_def [symmetric] m_def [symmetric]
                    d2_def [symmetric] device_work_emit)
  next
    case ok: True
    let ?g = "upload_gpu_dir E (obj_shapes (load_obj E f m)) (obj_materials (load_obj E f m))
                 (obj_attrib (load_obj E f m)) m sc2 d2"
    have n: "upload_dir E None sc d =
               (case ?g of Inl e \<Rightarrow> Inl e
                | Inr (sc3, d3) \<Rightarrow> Inr (None, sc3\<lparr>uploaded := True\<rparr>, d3))"
      using False ok
      by (simp add: upload_dir_def Let_def r_def [symmetric] f_def [symmetric] m_def [symmetric]
                    sc2_def d2_def)
    show ?thesis
    proof (cases ?g)
      case (Inl e)
      then show ?thesis using n by simp
    next
      case (Inr q)
      obtain sc3 d3 where q: "q = (sc3, d3)" by (cases q)
      have "device_work d d3" using upload_gpu_dir_Inr [OF Inr [unfolded q] w2] by simp
      then show ?thesis using n Inr q by simp
    qed
  qed
qed

text \<open>
  Claim C9. \<^verbatim>\<open>Scene::upload(nullptr)\<close> is safe: the camera out-parameter is written only
  when the pointer is not null, and a null pointer skips the write without affecting the
  rest of the upload sequence.

  The theorem relates the run with a null pointer to the run with any camera \<open>c\<close>, from
  the same scene and device: both fail with the same error, or both return; then the
  null run returns no camera, the two scenes are equal, and the two devices have the same
  allocations, the same next address and the same trace up to \<open>CameraOut\<close> events.
  Moreover a null run that returns has added to the trace no write through the camera
  pointer.
\<close>

theorem upload_dir_null_camera:
  "rel_sum (=) (\<lambda>(c1, sc1, d1) (c2, sc2, d2). c1 = None \<and> sc1 = sc2 \<and> same_device d1 d2)
     (upload_dir E None sc d) (upload_dir E (Some c) sc d)
   \<and> (case upload_dir E None sc d of
         Inl e \<Rightarrow> True
       | Inr (c1, sc1, d1) \<Rightarrow> c1 = None \<and> device_work d d1)"
  using upload_dir_null_same_run [where E = E and sc = sc and d = d and c = c]
    upload_dir_null_no_camera_write [where E = E and sc = sc and d = d]
  by simp

subsection \<open>The camera is written before the model is loaded\<close>

lemma parse_scene_dir_opened:
  assumes "file_lines E filename = Some ls"
  shows "out_cam (parse_scene_dir E filename sd c objf cubemapf d)
           = cam (parse_lines_dir E ls (start_pstate c objf cubemapf))
         \<and> out_objfile (parse_scene_dir E filename sd c objf cubemapf d)
           = objfile (parse_lines_dir E ls (start_pstate c objf cubemapf))"
  using assms by (simp add: parse_scene_dir_def Let_def split: prod.splits)

lemma parse_scene_dir_not_opened:
  assumes "file_lines E filename = None"
  shows "out_cam (parse_scene_dir E filename sd c objf cubemapf d) = c"
  using assms by (simp add: parse_scene_dir_def)

lemma upload_dir_first_call:
  assumes "\<not> uploaded sc"
  shows "(let r = parse_scene_dir E (filepath sc) (new_SceneData E) (init_camera sc) []
                    (cubemap_path sc) d;
              f = full_obj_path_of (filepath sc) (out_objfile r);
              m = mtl_dir_of (filepath sc) (out_objfile r)
          in case upload_dir E (Some c) sc d of
               Inl e \<Rightarrow> obj_ok (load_obj E f m) \<and> e = OutOfRange
             | Inr (c', sc', d') \<Rightarrow>
                 c' = Some (out_cam r) \<and> ready sc' = obj_ok (load_obj E f m)
                 \<and> take (length (trace (out_dev r)) + 2) (trace d')
                     = trace (out_dev r) @ [CameraOut, LoadObj f m])"
proof -
  define r where "r = parse_scene_dir E (filepath sc) (new_SceneData E) (init_camera sc) [] (cubemap_path sc) d"
  define f where "f = full_obj_path_of (filepath sc) (out_objfile r)"
  define m where "m = mtl_dir_of (filepath sc) (out_objfile r)"
  define d2 where "d2 = emit (LoadObj f m) (emit CameraOut (out_dev r))"
  define sc2 where "sc2 = sc\<lparr>scene_data := HObj (out_scene r), init_camera := out_cam r,
      cubemap_path := out_cubemap r, ready := obj_ok (load_obj E f m), load_error := obj_err (load_obj E f m)\<rparr>"
  have t2: "trace d2 = trace (out_dev r) @ [CameraOut, LoadObj f m]"
    by (simp add: d2_def emit_def)
  have pre: "device_work d2 d' \<Longrightarrow> take (length (trace (out_dev r)) + 2) (trace d') = trace (out_dev r) @ [CameraOut, LoadObj f m]" for d'
    using t2 by (simp add: device_work_def)
  have goal: "case upload_dir E (Some c) sc d of
               Inl e \<Rightarrow> obj_ok (load_obj E f m) \<and> e = OutOfRange
             | Inr (c', sc', d') \<Rightarrow>
                 c' = Some (out_cam r) \<and> ready sc' = obj_ok (load_obj E f m)
                 \<and> take (length (trace (out_dev r)) + 2) (trace d')
                     = trace (out_dev r) @ [CameraOut, LoadObj f m]"
  proof (cases "obj_ok (load_obj E f m)")
    case False
    have "upload_dir E (Some c) sc d =
            Inr (Some (out_cam r), sc2\<lparr>scene_data := HNull, d_scene_data := Null\<rparr>,
                 emit (Cerr (''arttracer: Scene.upload(): fail to load OBJ.'' @ [CHR 0x0A]
                             @ obj_err (load_obj E f m))) d2)"
      using assms False
      by (simp add: upload_dir_def Let_def r_def [symmetric] f_def [symmetric] m_def [symmetric] sc2_def d2_def)
    moreover have "device_work d2 (emit (Cerr (''arttracer: Scene.upload(): fail to load OBJ.'' @ [CHR 0x0A]
                             @ obj_err (load_obj E f m))) d2)"
      by (rule device_work_emit [OF _ device_work_refl]) simp
    ultimately show ?thesis using False pre by (simp add: sc2_def)
  next
    case True
    let ?g = "upload_gpu_dir E (obj_shapes (load_obj E f m)) (obj_materials (load_obj E f m))
                 (obj_attrib (load_obj E f m)) m sc2 d2"
    have y: "upload_dir E (Some c) sc d =
               (case ?g of Inl e \<Rightarrow> Inl e
                | Inr (sc3, d3) \<Rightarrow> Inr (Some (out_cam r), sc3\<lparr>uploaded := True\<rparr>, d3))"
      using assms True
      by (simp add: upload_dir_def Let_def r_def [symmetric] f_def [symmetric] m_def [symmetric] sc2_def d2_def
               split: sum.splits)
    show ?thesis
    proof (cases ?g)
      case (Inl e)
      have "e = OutOfRange" by (rule upload_gpu_dir_error [OF Inl]) (simp add: sc2_def)
      then show ?thesis using y Inl True by simp
    next
      case (Inr q)
      obtain sc3 d3 where q: "q = (sc3, d3)" by (cases q)
      have "device_work d2 d3 \<and> ready sc3 = ready sc2"
        using upload_gpu_dir_Inr [OF Inr [unfolded q] device_work_refl] .
      then show ?thesis using y Inr q True pre [of d3] by (simp add: sc2_def)
    qed
  qed
  show ?thesis unfolding Let_def
    using goal by (simp only: r_def f_def m_def)
qed


text \<open>Without a scene file that opens, \<^verbatim>\<open>parse_scene\<close> returns before it writes the
  default camera, and the caller receives \<^verbatim>\<open>_init_camera\<close> as it was.\<close>

lemma upload_dir_scene_file_missing:
  assumes "\<not> uploaded sc" "file_lines E (filepath sc) = None"
  shows "case upload_dir E (Some c) sc d of
           Inl e \<Rightarrow> True
         | Inr (c', sc', d') \<Rightarrow> c' = Some (init_camera sc)"
  using upload_dir_first_call [OF assms(1), where E = E and c = c and d = d]
        parse_scene_dir_not_opened
          [OF assms(2), where sd = "new_SceneData E" and c = "init_camera sc" and objf = "[]"
                          and cubemapf = "cubemap_path sc" and d = d]
  by (auto simp: Let_def split: sum.splits)

text \<open>
  Claim C8. \<^verbatim>\<open>Scene::upload(camera)\<close> with a non-null pointer writes the parsed (or
  default) camera into \<^verbatim>\<open>*camera\<close> before the model load is attempted, so the camera is
  populated also when the load fails and the scene ends with \<^verbatim>\<open>ready() == false\<close>.

  That holds when the scene file opens. Without it \<^verbatim>\<open>parse_scene\<close> returns before it
  writes the default camera, and \<^verbatim>\<open>*camera\<close> receives \<^verbatim>\<open>_init_camera\<close> as the constructor
  left it (\<open>upload_dir_scene_file_missing\<close> and the closed example below). As amended, for
  a scene whose file opens, with \<open>st\<close> the state of the line loop of \<^verbatim>\<open>parse_scene\<close>
  started from the default camera: the camera of \<open>st\<close> is the default camera when no line
  yields the token \<^verbatim>\<open>camera\<close>; a call on an uploaded scene returns at once and leaves
  \<^verbatim>\<open>*camera\<close> alone; any other call returns unless the mesh upload after a successful load
  runs into undefined behaviour, and when it returns \<^verbatim>\<open>*camera\<close> holds the camera of \<open>st\<close>,
  \<^verbatim>\<open>ready()\<close> is the loader's flag, and the trace continues the trace of \<^verbatim>\<open>parse_scene\<close>
  with the camera write and then the call of \<^verbatim>\<open>LoadObj\<close>.
\<close>

theorem upload_dir_camera_before_load:
  assumes "file_lines E (filepath sc) = Some ls"
  shows "(let st = parse_lines_dir E ls (start_pstate (init_camera sc) [] (cubemap_path sc));
              r = parse_scene_dir E (filepath sc) (new_SceneData E) (init_camera sc) []
                    (cubemap_path sc) d;
              f = full_obj_path_of (filepath sc) (objfile st);
              m = mtl_dir_of (filepath sc) (objfile st)
          in (list_all (\<lambda>l. first_token l \<noteq> ''camera'') ls
                \<longrightarrow> cam st = default_camera (init_camera sc))
             \<and> (if uploaded sc then upload_dir E (Some c) sc d = Inr (Some c, sc, d)
                else (case upload_dir E (Some c) sc d of
                        Inl e \<Rightarrow> obj_ok (load_obj E f m) \<and> e = OutOfRange
                      | Inr (c', sc', d') \<Rightarrow>
                          c' = Some (cam st) \<and> ready sc' = obj_ok (load_obj E f m)
                          \<and> take (length (trace (out_dev r)) + 2) (trace d')
                              = trace (out_dev r) @ [CameraOut, LoadObj f m])))"
proof -
  define st where "st = parse_lines_dir E ls (start_pstate (init_camera sc) [] (cubemap_path sc))"
  define r where "r = parse_scene_dir E (filepath sc) (new_SceneData E) (init_camera sc) []
                        (cubemap_path sc) d"
  have o: "out_cam r = cam st" "out_objfile r = objfile st"
    using parse_scene_dir_opened
            [OF assms, where sd = "new_SceneData E" and c = "init_camera sc" and objf = "[]"
                         and cubemapf = "cubemap_path sc" and d = d]
    by (simp_all add: r_def st_def)
  have t: "token (start_pstate (init_camera sc) [] (cubemap_path sc)) \<noteq> ''camera''"
    by (simp add: start_pstate_def)
  have c0: "cam (start_pstate (init_camera sc) [] (cubemap_path sc))
              = default_camera (init_camera sc)"
    by (simp add: start_pstate_def)
  have dflt: "list_all (\<lambda>l. first_token l \<noteq> ''camera'') ls
               \<longrightarrow> cam st = default_camera (init_camera sc)"
    using parse_lines_dir_no_camera [OF t, where ls = ls and E = E] c0 by (simp add: st_def)
  have up: "uploaded sc \<Longrightarrow> upload_dir E (Some c) sc d = Inr (Some c, sc, d)"
    by (simp add: upload_dir_def)
  have first: "\<not> uploaded sc \<Longrightarrow>
      (case upload_dir E (Some c) sc d of
         Inl e \<Rightarrow> obj_ok (load_obj E (full_obj_path_of (filepath sc) (objfile st))
                                   (mtl_dir_of (filepath sc) (objfile st))) \<and> e = OutOfRange
       | Inr (c', sc', d') \<Rightarrow>
           c' = Some (cam st)
           \<and> ready sc' = obj_ok (load_obj E (full_obj_path_of (filepath sc) (objfile st))
                                        (mtl_dir_of (filepath sc) (objfile st)))
           \<and> take (length (trace (out_dev r)) + 2) (trace d')
               = trace (out_dev r) @ [CameraOut, LoadObj (full_obj_path_of (filepath sc) (objfile st))
                                                     (mtl_dir_of (filepath sc) (objfile st))])"
    using upload_dir_first_call [where sc = sc and E = E and c = c and d = d]
    unfolding Let_def r_def [symmetric] o by simp
  show ?thesis
    unfolding Let_def st_def [symmetric] r_def [symmetric]
    using dflt up first by simp
qed

text \<open>At \<^verbatim>\<open>assets/lost.scene\<close>, whose model does not load: the camera handed in comes
  back as the default camera, the scene is not ready, and the trace has the two calls that
  copy the light, the camera write and the call of the loader, in that order.\<close>

theorem upload_dir_camera_before_load_witness:
  "file_lines demo_env (filepath (Scene_dir demo_env ''assets/lost.scene''))
     = Some [''p_light 0 4 0 1 1 1 5 2'', ''scene lost.obj'']
   \<and> \<not> uploaded (Scene_dir demo_env ''assets/lost.scene'')
   \<and> (case upload_dir demo_env (Some junk_cam) (Scene_dir demo_env ''assets/lost.scene'') dev0 of
         Inl e \<Rightarrow> False
       | Inr (c', sc', d') \<Rightarrow>
           c' = Some (default_camera junk_cam) \<and> \<not> ready sc'
           \<and> take 4 (trace d')
               = [CudaMalloc 1 (Dev 1),
                  CudaMemcpyH2D (Dev 1)
                    (Lights [\<lparr>color = (1, 1, 1), vec = (0, 4, 0), emission = 5, radius = 2\<rparr>]),
                  CameraOut, LoadObj ''assets/lost.obj'' ''assets/''])"
  using upload_dir_camera_before_load
          [where sc = "Scene_dir demo_env ''assets/lost.scene''" and E = demo_env
             and c = junk_cam and d = dev0
             and ls = "[''p_light 0 4 0 1 1 1 5 2'', ''scene lost.obj'']"]
  by (simp add: model_defs demo_defs)

text \<open>The claim as stated fails at a scene whose file does not open: the caller's camera
  (here a default camera) is overwritten with the never-written \<^verbatim>\<open>_init_camera\<close>, whose
  basis is not the default one; the load then fails and the scene is not ready.\<close>

theorem upload_dir_camera_unwritten_without_scene_file:
  "file_lines demo_env ''assets/none.scene'' = None
   \<and> (case upload_dir demo_env (Some (default_camera junk_cam))
             (Scene_dir demo_env ''assets/none.scene'') dev0 of
         Inl e \<Rightarrow> False
       | Inr (c', sc', d') \<Rightarrow>
           c' = Some (new_Camera demo_env) \<and> new_Camera demo_env = junk_cam
           \<and> cam_u junk_cam = (7, 7, 7) \<and> cam_u (default_camera junk_cam) = (1, 0, 0)
           \<and> \<not> ready sc'
           \<and> take 3 (trace d')
               = [Cerr (''arttracer: parse_scene(): failed to open '' @ [CHR 0x27]
                        @ ''assets/none.scene'' @ [CHR 0x27]),
                  CameraOut, LoadObj ''assets/'' ''assets/''])"
  by (simp add: model_defs demo_defs)

section \<open>The cubemap uploader\<close>

lemma list_update_Cons_numeral:
  "(x # xs)[numeral k := y] = x # xs[numeral k - 1 := y]"
  by (simp add: numeral_eq_Suc)

lemma replicate_24:
  "replicate 24 x = [x, x, x, x, x, x, x, x, x, x, x, x, x, x, x, x, x, x, x, x, x, x, x, x]"
  by (simp add: eval_nat_numeral)

lemma createUnitTexture_four_six: "createUnitTexture E 4 colour 6 = Inr (constant_cube colour)"
proof -
  have six: "replicate 6 y = [y, y, y, y, y, y]" for y :: "real list"
    by (simp add: eval_nat_numeral)
  show ?thesis
    by (simp add: createUnitTexture_def unit_face_def store_def bindE_def upt_rec
                  replicate_24 six list_update_Cons_numeral constant_cube_def)
qed

lemma length_constant_cube: "length (constant_cube colour) = 24"
proof -
  have six: "replicate 6 y = [y, y, y, y, y, y]" for y :: "real list"
    by (simp add: eval_nat_numeral)
  show ?thesis by (simp add: constant_cube_def six)
qed

lemma cubemap_image_constant:
  "path = [] \<or> isHexa path \<Longrightarrow>
   cubemap_image E path d =
     Inr (1, constant_cube (if path = [] then 0x05070A else strtol16 E path mod 2 ^ 32), d)"
  by (simp only: cubemap_image_def NB_COMP_def NB_FACES_def DEFAULT_COLOR_def
                 createUnitTexture_four_six bindE_def sum.case if_True)

lemma cubemap_to_device_one:
  assumes "length img = 24"
  shows "\<exists>d'. cubemap_to_device 1 img sd d
               = Inr (sd\<lparr>cubemap_desc := (32, 32, 32, 32), cubemap := Dev (next_addr d)\<rparr>, d')
             \<and> peek_dev d' (Dev (next_addr d)) = Some (Cube 1 img)"
proof -
  have t: "take (1 * 1 * NB_FACES * NB_COMP) img = img"
    using assms by (simp add: NB_FACES_def NB_COMP_def)
  show ?thesis
    unfolding cubemap_to_device_def t
    using assms map_of_overwritten [of "next_addr d" "Cube 1 img" "allocs d"]
    by (simp add: Let_def NB_FACES_def NB_COMP_def peek_dev_def emit_def)
qed

lemma upload_cubemap_constant:
  assumes "path = [] \<or> isHexa path"
  shows "\<exists>d'. upload_cubemap E path sd d
               = Inr (sd\<lparr>cubemap_desc := (32, 32, 32, 32), cubemap := Dev (next_addr d)\<rparr>, d')
             \<and> peek_dev d' (Dev (next_addr d))
               = Some (Cube 1 (constant_cube
                         (if path = [] then 0x05070A else strtol16 E path mod 2 ^ 32)))"
  using cubemap_image_constant [OF assms, of E d]
        cubemap_to_device_one [OF length_constant_cube, of _ sd d]
  by (simp add: upload_cubemap_def bindE_def)

text \<open>
  Claim C2. The claim: for an empty string, a hexadecimal literal, or a path whose image
  fails to decode or fails the layout checks, \<^verbatim>\<open>upload_cubemap\<close> completes and produces a
  constant-colour cubemap with a single texel per face (6 faces, 4 floats), of the default
  colour 0x05070A or of the literal.

  For the empty string and for a literal that is what the code does
  (\<open>upload_cubemap_constant\<close>). For a path, \<^verbatim>\<open>size = w / 4\<close> is assigned before the checks and
  the fallback does not set it back to 1: the image is the single-texel image of the
  default colour, but the cube array is allocated with \<open>size \<times> size\<close> texels per face and
  \<^verbatim>\<open>cudaMemcpy3D\<close> reads \<open>size \<times> size \<times> 6\<close> texels from the 24 floats. The theorem
  evaluates the uploader on an image of 8 by 3 pixels (\<^verbatim>\<open>8 / 4 = 2\<close>, \<^verbatim>\<open>3 / 3 = 1\<close>, so the
  layout check fails).
\<close>

theorem cubemap_fallback_keeps_loaded_size:
  "stbi_loadf demo_env ''assets/sky.png''
     = \<lparr>stbi_loaded = Some (replicate 72 0), stbi_w = 8, stbi_h = 3, stbi_nb_chan = 3\<rparr>
   \<and> \<not> isHexa ''assets/sky.png''
   \<and> cubemap_image demo_env ''assets/sky.png'' dev0
       = Inr (2, constant_cube 0x05070A,
              dev0\<lparr>trace := [StbiLoadf ''assets/sky.png'',
                Cerr ''arttracer: cubemap loading fail: width and height are not the same'']\<rparr>)
   \<and> length (constant_cube 0x05070A) = 24
   \<and> upload_cubemap demo_env ''assets/sky.png'' junk_scene dev0 = Inl OutOfRange"
proof -
  have img: "createUnitTexture demo_env 4 0x05070A 6 = Inr (constant_cube 0x05070A)"
    by (rule createUnitTexture_four_six)
  have i: "cubemap_image demo_env ''assets/sky.png'' dev0
       = Inr (2, constant_cube 0x05070A,
              dev0\<lparr>trace := [StbiLoadf ''assets/sky.png'',
                Cerr ''arttracer: cubemap loading fail: width and height are not the same'']\<rparr>)"
    using img
    by (simp add: cubemap_image_def isHexa_def tdiv_def to_unsigned_def bindE_def emit_def
                  NB_COMP_def NB_FACES_def DEFAULT_COLOR_def Let_def demo_env_def dev0_def)
  have u: "upload_cubemap demo_env ''assets/sky.png'' junk_scene dev0 = Inl OutOfRange"
    by (simp add: upload_cubemap_def i bindE_def cubemap_to_device_def Let_def
                  length_constant_cube NB_COMP_def NB_FACES_def)
  show ?thesis using i u by (simp add: length_constant_cube demo_env_def isHexa_def)
qed

section \<open>Upload followed by release\<close>

text \<open>scene/scene.cpp on \<^verbatim>\<open>assets/a.scene\<close>: five allocations (lights, materials, faces,
  meshes, the scene struct), and \<^verbatim>\<open>release\<close> frees the five.\<close>

lemma release_dir_frees_everything:
  "upload_dir demo_env None (Scene_dir demo_env ''assets/a.scene'') dev0 = Inr ready_dir
   \<and> map fst (allocs (snd (snd ready_dir))) = [1, 2, 3, 4, 5]
   \<and> map_sum id (\<lambda>r. (uploaded (fst r), map fst (allocs (snd r)), drop 11 (trace (snd r))))
         (release_dir demo_env (fst (snd ready_dir)) (snd (snd ready_dir)))
       = Inr (False, [],
              [CudaMemcpyD2H (Dev 4) 1, CudaFree (Dev 3), CudaFree (Dev 4), CudaFree (Dev 2),
               CudaFree (Dev 1), CudaFree (Dev 5)])"
  by (simp add: ready_dir_def model_defs demo_defs)

text \<open>
  Claim C1. The claim: for every valid scene file, \<^verbatim>\<open>upload()\<close> followed by \<^verbatim>\<open>release()\<close>
  frees every device allocation \<^verbatim>\<open>upload()\<close> made: \<^verbatim>\<open>release_gpu\<close> reads the texture and mesh
  descriptors back, frees every pixel buffer and face buffer, then the container arrays
  (materials, lights, textures, meshes), and finally the device \<^verbatim>\<open>SceneData\<close> and the host
  mirror.

  \<^verbatim>\<open>release_gpu\<close> of scene.cpp (the version with textures and a cubemap) frees the pixel
  buffers, the face buffers, the materials, the lights and the device struct; it never
  passes \<^verbatim>\<open>textures.data\<close>, \<^verbatim>\<open>meshes.data\<close> or the cubemap array to a free. The theorem runs
  \<^verbatim>\<open>upload\<close> and \<^verbatim>\<open>release\<close> of scene.cpp on \<^verbatim>\<open>assets/a.scene\<close> (one light, one textured
  triangle, no cubemap line): eight allocations are made, and after \<^verbatim>\<open>release\<close> the
  texture array (address 3), the mesh array (6) and the cube array (7) are still
  allocated.
\<close>

theorem release_top_leaves_allocations:
  "upload_top demo_env (Scene_top demo_env ''assets/a.scene'') dev0 = Inr ready_top
   \<and> uploaded (fst ready_top) \<and> ready (fst ready_top)
   \<and> map fst (allocs (snd ready_top)) = [1, 2, 3, 4, 5, 6, 7, 8]
   \<and> map_sum id (\<lambda>r. (uploaded (fst r), map fst (allocs (snd r)), drop 17 (trace (snd r))))
         (release_top demo_env (fst ready_top) (snd ready_top))
       = Inr (False, [3, 6, 7],
              [CudaMemcpyD2H (Dev 3) 1, CudaFree (Dev 2), CudaMemcpyD2H (Dev 6) 1,
               CudaFree (Dev 5), CudaFree (Dev 4), CudaFree (Dev 1), CudaFree (Dev 8)])
   \<and> map_of (allocs (snd ready_top)) 3
       = Some (Textures [\<lparr>tex_w = 1, tex_h = 1, tex_nb_chan = 4, tex_data = Dev 2\<rparr>])
   \<and> map_of (allocs (snd ready_top)) 6
       = Some (Meshes [\<lparr>faces = \<lparr>buf_size = 1, buf_data = Dev 5\<rparr>\<rparr>])
   \<and> (case scene_data (fst ready_top) of
         HObj sd \<Rightarrow> buf_data (textures sd) = Dev 3 \<and> buf_data (meshes sd) = Dev 6
                    \<and> cubemap sd = Dev 7
       | _ \<Rightarrow> False)"
  by (simp add: ready_top_def model_defs demo_defs)

text \<open>What is left allocated after that \<^verbatim>\<open>release\<close>.\<close>

theorem release_top_leaves_allocations_witness:
  "map fst (allocs (snd (projr (release_top demo_env (fst ready_top) (snd ready_top)))))
     = [3, 6, 7]"
  using release_top_leaves_allocations
  by (cases "release_top demo_env (fst ready_top) (snd ready_top)") auto

text \<open>
  Claim C6. The claim: if the scene file has no \<^verbatim>\<open>p_light\<close> directive, the lights buffer
  of the resulting \<^verbatim>\<open>SceneData\<close> has size 0 and no device allocation is made for it, so its
  data pointer is never allocated, dereferenced or freed.

  No version allocates for an empty light list, and scene/scene.cpp sets the size to 0.
  But \<^verbatim>\<open>parse_scene\<close> of scene.cpp returns before it writes \<^verbatim>\<open>lights.size\<close>, which keeps the
  indeterminate value of \<^verbatim>\<open>new SceneData\<close>; and \<^verbatim>\<open>release_gpu\<close> of both files calls
  \<^verbatim>\<open>cudaFree(_scene_data->lights.data)\<close> without a look at the size. The theorem runs both
  versions on \<^verbatim>\<open>assets/dark.scene\<close> (no light): the data pointer stays the indeterminate
  pointer (address 902 in this environment, never returned by an allocation) and
  \<^verbatim>\<open>release\<close> passes it to \<^verbatim>\<open>cudaFree\<close>; in scene.cpp the size stays the indeterminate 7.
\<close>

theorem release_frees_unallocated_lights:
  "file_lines demo_env ''assets/dark.scene'' = Some [''# no lights'', ''scene a.obj'']
   \<and> buf_data (lights (new_SceneData demo_env)) = Dev 902
   \<and> upload_dir demo_env None (Scene_dir demo_env ''assets/dark.scene'') dev0 = Inr dark_dir
   \<and> (case scene_data (fst (snd dark_dir)) of
         HObj sd \<Rightarrow> lights sd = \<lparr>buf_size = 0, buf_data = Dev 902\<rparr>
       | _ \<Rightarrow> False)
   \<and> map fst (allocs (snd (snd dark_dir))) = [1, 2, 3, 4]
   \<and> map_sum id (\<lambda>r. drop 9 (trace (snd r)))
         (release_dir demo_env (fst (snd dark_dir)) (snd (snd dark_dir)))
       = Inr [CudaMemcpyD2H (Dev 3) 1, CudaFree (Dev 2), CudaFree (Dev 3), CudaFree (Dev 1),
              CudaFree (Dev 902), CudaFree (Dev 4)]
   \<and> upload_top demo_env (Scene_top demo_env ''assets/dark.scene'') dev0 = Inr dark_top
   \<and> (case scene_data (fst dark_top) of
         HObj sd \<Rightarrow> lights sd = \<lparr>buf_size = 7, buf_data = Dev 902\<rparr>
       | _ \<Rightarrow> False)
   \<and> CudaFree (Dev 902)
       \<in> set (trace (snd (projr (release_top demo_env (fst dark_top) (snd dark_top)))))"
  by (simp add: dark_dir_def dark_top_def model_defs demo_defs)

text \<open>The last frees of that \<^verbatim>\<open>release\<close> in scene/scene.cpp.\<close>

theorem release_frees_unallocated_lights_witness:
  "drop 9 (trace (snd (projr (release_dir demo_env (fst (snd dark_dir)) (snd (snd dark_dir))))))
     = [CudaMemcpyD2H (Dev 3) 1, CudaFree (Dev 2), CudaFree (Dev 3), CudaFree (Dev 1),
        CudaFree (Dev 902), CudaFree (Dev 4)]"
  using release_frees_unallocated_lights
  by (cases "release_dir demo_env (fst (snd dark_dir)) (snd (snd dark_dir))") auto

end
